theory Spec2Isabelle
  imports Complex_Main "HOL-Library.List_Lexorder" "HOL-Library.Product_Lexorder"
begin

text \<open>
  A model of the wellness tracker: the client (a React component with its resolver of
  side effects, its aggregation of the side effects of the active medications and its
  debounced auto-save) and the server (an Express application that keeps one patient
  document in a file, with a backup, and proxies the lookup of side effects). The first
  sections hold the model, function by function as the two source files have them; the
  sections named Properties hold the proofs.
\<close>

section \<open>JavaScript strings\<close>

text \<open>
  A JavaScript string is a sequence of UTF-16 code units. A code unit is modelled by its
  number, a string by the list of its code units, so that \<open>length\<close> is the
  \<^verbatim>\<open>.length\<close> of the source and the lexicographic order on lists
  is the order of \<^verbatim>\<open><\<close> and \<^verbatim>\<open>>=\<close> on strings (code unit by code unit,
  a proper prefix first).
\<close>

type_synonym jstring = "nat list"

definition js :: "string \<Rightarrow> jstring" where
  "js s = map of_char s"

text \<open>
  The class \<^verbatim>\<open>\s\<close> of regular expressions, which is also what \<^verbatim>\<open>trim()\<close>
  removes: the white space and line terminator code points of ECMAScript.
\<close>

definition is_space :: "nat \<Rightarrow> bool" where
  "is_space c \<longleftrightarrow>
     c \<in> set [0x09, 0x0A, 0x0B, 0x0C, 0x0D, 0x20, 0xA0, 0x1680, 0x2028, 0x2029,
               0x202F, 0x205F, 0x3000, 0xFEFF]
     \<or> (0x2000 \<le> c \<and> c \<le> 0x200A)"

text \<open>
  Case conversion of one code unit. The two functions follow the Unicode case mappings
  that \<^verbatim>\<open>toLowerCase\<close> and \<^verbatim>\<open>toUpperCase\<close> apply, for the code units
  U+0000 to U+00FF (Basic Latin and Latin-1 Supplement): there the lower case of a
  code unit is one code unit, and the upper case is one code unit except for U+00DF
  (sharp s), whose upper case is the two code units \<open>SS\<close>; the upper cases of U+00B5 and
  U+00FF lie outside the range. Code units above U+00FF are left as they are, which is
  not what JavaScript does for all of them (it maps U+212A, the Kelvin sign, to
  \<open>k\<close>): the two functions are those of JavaScript on the strings over U+0000 to
  U+00FF, the strings \<open>latin1\<close> below, and a statement about the case of arbitrary
  strings is made for such strings only.
\<close>

definition lower_unit :: "nat \<Rightarrow> nat" where
  "lower_unit c =
     (if (0x41 \<le> c \<and> c \<le> 0x5A) \<or> (0xC0 \<le> c \<and> c \<le> 0xDE \<and> c \<noteq> 0xD7) then c + 0x20
      else c)"

definition upper_unit :: "nat \<Rightarrow> jstring" where
  "upper_unit c =
     (if (0x61 \<le> c \<and> c \<le> 0x7A) \<or> (0xE0 \<le> c \<and> c \<le> 0xFE \<and> c \<noteq> 0xF7) then [c - 0x20]
      else if c = 0xDF then [0x53, 0x53]
      else if c = 0xB5 then [0x39C]
      else if c = 0xFF then [0x178]
      else [c])"

definition toLowerCase :: "jstring \<Rightarrow> jstring" where
  "toLowerCase s = map lower_unit s"

definition toUpperCase :: "jstring \<Rightarrow> jstring" where
  "toUpperCase s = concat (map upper_unit s)"

definition trim :: "jstring \<Rightarrow> jstring" where
  "trim s = rev (dropWhile is_space (rev (dropWhile is_space s)))"

definition latin1 :: "jstring \<Rightarrow> bool" where
  "latin1 s = list_all (\<lambda>c. c \<le> 0xFF) s"

definition is_ascii :: "jstring \<Rightarrow> bool" where
  "is_ascii s = list_all (\<lambda>c. c < 0x80) s"

subsection \<open>toTitleCase\<close>

text \<open>
  \<^verbatim>\<open>str.toLowerCase().replace(/(?:^|\s)\S/g, c => c.toUpperCase())\<close>, the same
  function in the client and in the server.

  \<open>capitalize_matches\<close> is the global replace: it scans the string from the left; the
  flag says whether the scan is at index 0, where \<^verbatim>\<open>^\<close> matches. At each index the
  first alternative (\<^verbatim>\<open>^\<close> then one non-space unit) is tried before the second (one
  space unit then one non-space unit); a match is replaced by its upper case and the scan
  goes on behind it, otherwise the unit is kept and the scan moves one unit on.
\<close>

fun capitalize_matches :: "bool \<Rightarrow> jstring \<Rightarrow> jstring" where
  "capitalize_matches at_start [] = []"
| "capitalize_matches at_start [c] =
     (if at_start \<and> \<not> is_space c then toUpperCase [c] else [c])"
| "capitalize_matches at_start (c # d # ds) =
     (if at_start \<and> \<not> is_space c then toUpperCase [c] @ capitalize_matches False (d # ds)
      else if is_space c \<and> \<not> is_space d then toUpperCase [c, d] @ capitalize_matches False ds
      else c # capitalize_matches False (d # ds))"

definition toTitleCase :: "jstring \<Rightarrow> jstring" where
  "toTitleCase str = capitalize_matches True (toLowerCase str)"

section \<open>Exceptions and objects used as dictionaries\<close>

text \<open>
  What the code can throw: a rejected file or network operation, \<^verbatim>\<open>JSON.parse\<close> on
  text that is not JSON, a call of something that is not a function, and the errors the
  code raises itself with \<^verbatim>\<open>throw new Error(...)\<close>.
\<close>

datatype exn = IOError | SyntaxError | TypeError | Failure

text \<open>
  The code keeps several tables in plain objects (\<^verbatim>\<open>{}\<close> or an object literal) and
  reads them with \<^verbatim>\<open>obj[key]\<close>. Such an object is modelled by the list of its own
  properties in insertion order. Reading a key that is not an own property falls through
  to \<^verbatim>\<open>Object.prototype\<close>: for the names below the read yields an inherited member
  (a function, or the prototype itself for \<^verbatim>\<open>__proto__\<close>), which is truthy and is
  neither an array nor a string; for every other name it yields \<^verbatim>\<open>undefined\<close>.
\<close>

definition object_prototype_keys :: "jstring list" where
  "object_prototype_keys = map js
     [''constructor'', ''__defineGetter__'', ''__defineSetter__'', ''hasOwnProperty'',
      ''__lookupGetter__'', ''__lookupSetter__'', ''isPrototypeOf'',
      ''propertyIsEnumerable'', ''toString'', ''valueOf'', ''__proto__'',
      ''toLocaleString'']"

datatype 'a slot = Own 'a | Inherited | Undefined

definition get_property :: "(jstring \<times> 'a) list \<Rightarrow> jstring \<Rightarrow> 'a slot" where
  "get_property obj k =
     (case map_of obj k of
        Some v \<Rightarrow> Own v
      | None \<Rightarrow> if k \<in> set object_prototype_keys then Inherited else Undefined)"

text \<open>
  Writing an own property: an existing key keeps its place, a new key goes to the end.
\<close>

fun set_property :: "(jstring \<times> 'a) list \<Rightarrow> jstring \<Rightarrow> 'a \<Rightarrow> (jstring \<times> 'a) list" where
  "set_property [] k v = [(k, v)]"
| "set_property ((k', v') # kvs) k v =
     (if k' = k then (k, v) # kvs else (k', v') # set_property kvs k v)"

text \<open>
  \<^verbatim>\<open>Object.entries\<close> lists the keys that are array indices first (canonical decimal
  numerals below 4294967295), in ascending numeric order, then the other keys in
  insertion order. Canonical numerals compare numerically as they compare by length and
  then by code unit.
\<close>

definition is_array_index :: "jstring \<Rightarrow> bool" where
  "is_array_index s \<longleftrightarrow>
     s \<noteq> [] \<and> list_all (\<lambda>d. 0x30 \<le> d \<and> d \<le> 0x39) s \<and> (s = [0x30] \<or> hd s \<noteq> 0x30) \<and>
     (length s < 10 \<or> (length s = 10 \<and> s < js ''4294967295''))"

definition object_entries :: "(jstring \<times> 'a) list \<Rightarrow> (jstring \<times> 'a) list" where
  "object_entries obj =
     sort_key (\<lambda>p. (length (fst p), fst p)) (filter (\<lambda>p. is_array_index (fst p)) obj)
     @ filter (\<lambda>p. \<not> is_array_index (fst p)) obj"

text \<open>
  \<^verbatim>\<open>Array.prototype.sort\<close> with a comparator. The sort is stable, and for a consistent
  comparator its result is the one sorted arrangement that keeps equal elements in their
  order; insertion from the right computes it. For an inconsistent comparator the
  language leaves the order open, so the statements about the order below assume
  consistency.
\<close>

fun insert_by :: "('a \<Rightarrow> 'a \<Rightarrow> int) \<Rightarrow> 'a \<Rightarrow> 'a list \<Rightarrow> 'a list" where
  "insert_by cmp x [] = [x]"
| "insert_by cmp x (y # ys) = (if cmp x y \<le> 0 then x # y # ys else y # insert_by cmp x ys)"

definition array_sort :: "('a \<Rightarrow> 'a \<Rightarrow> int) \<Rightarrow> 'a list \<Rightarrow> 'a list" where
  "array_sort cmp xs = foldr (insert_by cmp) xs []"

text \<open>
  \<^verbatim>\<open>forEach\<close> with a callback that updates a state and may throw: the first exception
  ends the loop.
\<close>

fun forEach :: "('a \<Rightarrow> 's \<Rightarrow> exn + 's) \<Rightarrow> 'a list \<Rightarrow> 's \<Rightarrow> exn + 's" where
  "forEach f [] s = Inr s"
| "forEach f (x # xs) s = (case f x s of Inl e \<Rightarrow> Inl e | Inr s' \<Rightarrow> forEach f xs s')"

section \<open>Lookup tables\<close>

text \<open>
  The exclusion set is a \<^verbatim>\<open>Set\<close>, read with \<^verbatim>\<open>has\<close>; the same terms in the client
  and in the server.
\<close>

definition EXCLUDED_TERMS :: "jstring list" where
  "EXCLUDED_TERMS = map js
     [
      ''drug ineffective'', ''off label use'', ''product substitution issue'',
      ''therapeutic response unexpected'', ''drug interaction'',
      ''drug exposure during pregnancy'', ''intentional product misuse'',
      ''product use issue'', ''no adverse event'', ''condition aggravated'', ''death'',
      ''completed suicide'', ''self injury'', ''drug dependence'', ''drug abuse'',
      ''intentional overdose'', ''accidental overdose'', ''product quality issue'',
      ''product complaint'', ''therapeutic response decreased'',
      ''therapeutic response increased'', ''medication error'', ''wrong drug administered'',
      ''drug dose omission'', ''inappropriate schedule of drug administration'']"

text \<open>
  The client's \<^verbatim>\<open>DESCRIPTIONS\<close> object: its own properties, keyed by lower-case term.
\<close>

definition DESCRIPTIONS :: "(jstring \<times> jstring) list" where
  "DESCRIPTIONS = map (\<lambda>(k, d). (js k, d))
     [
      (''nausea'',
       js ''A queasy feeling in the stomach that may cause an urge to vomit.''),
      (''headache'',
       js ''Pain or pressure in the head, ranging from mild to severe.''),
      (''dizziness'',
       js ''A sensation of lightheadedness or feeling unsteady on your feet.''),
      (''fatigue'',
       js ''Persistent tiredness or exhaustion that doesn'' @ [0x27] @ js ''t improve with rest.''),
      (''diarrhoea'',
       js ''Frequent loose or watery bowel movements.''),
      (''diarrhea'',
       js ''Frequent loose or watery bowel movements.''),
      (''vomiting'',
       js ''Forceful emptying of the stomach contents through the mouth.''),
      (''insomnia'',
       js ''Difficulty falling asleep, staying asleep, or waking too early.''),
      (''somnolence'',
       js ''Excessive drowsiness or sleepiness during the day.''),
      (''dry mouth'',
       js ''Reduced saliva production causing a parched feeling in the mouth.''),
      (''constipation'',
       js ''Infrequent or difficult bowel movements.''),
      (''abdominal pain'',
       js ''Discomfort or cramping felt between the chest and pelvis.''),
      (''rash'',
       js ''A noticeable change in the color or texture of the skin.''),
      (''anxiety'',
       js ''Feelings of worry, nervousness, or unease.''),
      (''weight increased'',
       js ''Noticeable gain in body weight since starting medication.''),
      (''weight decreased'',
       js ''Noticeable loss in body weight since starting medication.''),
      (''tremor'',
       js ''Involuntary shaking or trembling, often in the hands.''),
      (''decreased appetite'',
       js ''Reduced desire to eat or feeling full very quickly.''),
      (''increased appetite'',
       js ''Stronger or more frequent urges to eat.''),
      (''blood pressure increased'',
       js ''Higher than normal force of blood against artery walls.''),
      (''palpitations'',
       js ''Awareness of your heartbeat, which may feel fast or fluttering.''),
      (''blurred vision'',
       js ''Difficulty seeing clearly, as though looking through fog.''),
      (''muscle pain'',
       js ''Aching or soreness in the muscles.''),
      (''arthralgia'',
       js ''Pain in one or more joints without visible swelling.''),
      (''myalgia'',
       js ''Muscle aches or soreness, often felt as a dull pain.''),
      (''dyspepsia'',
       js ''Indigestion '' @ [0x2014] @ js '' discomfort or burning in the upper stomach area.''),
      (''back pain'',
       js ''Aching or stiffness felt in the lower, middle, or upper back.''),
      (''upper respiratory tract infection'',
       js ''Common cold-like symptoms: sore throat, runny nose, cough.''),
      (''cough'',
       js ''Repeated reflex to clear the airways, may be dry or productive.''),
      (''pruritus'',
       js ''Persistent itching of the skin that causes an urge to scratch.''),
      (''hyperhidrosis'',
       js ''Excessive sweating beyond what is needed to cool the body.''),
      (''oedema'',
       js ''Swelling caused by fluid buildup, often in feet, ankles, or hands.''),
      (''edema'',
       js ''Swelling caused by fluid buildup, often in feet, ankles, or hands.''),
      (''peripheral edema'',
       js ''Swelling in the lower legs, ankles, or feet due to fluid retention.''),
      (''depression'',
       js ''Persistent feelings of sadness, hopelessness, or loss of interest.''),
      (''sexual dysfunction'',
       js ''Changes in sexual desire, arousal, or ability to reach climax.''),
      (''erectile dysfunction'',
       js ''Difficulty achieving or maintaining an erection.''),
      (''libido decreased'',
       js ''Reduced interest in or desire for sexual activity.''),
      (''flatulence'',
       js ''Excess gas in the digestive tract causing bloating or passing gas.''),
      (''nasal congestion'',
       js ''Stuffy or blocked nose making it difficult to breathe through the nostrils.''),
      (''rhinitis'',
       js ''Inflammation of the nasal passages causing congestion or runny nose.''),
      (''urinary tract infection'',
       js ''Infection in the bladder or urethra causing painful or frequent urination.''),
      (''alopecia'',
       js ''Thinning or loss of hair from the scalp or body.''),
      (''feeling abnormal'',
       js ''A general sense that something feels off or different in your body.''),
      (''malaise'',
       js ''A general feeling of discomfort, unease, or being unwell.''),
      (''asthenia'',
       js ''Overall weakness or lack of energy making daily activities harder.''),
      (''pain in extremity'',
       js ''Aching or discomfort in the arms, legs, hands, or feet.''),
      (''paraesthesia'',
       js ''Tingling, numbness, or a '' @ [0x27] @ js ''pins and needles'' @ [0x27] @ js '' sensation in the skin.''),
      (''hypoaesthesia'',
       js ''Reduced sensitivity to touch or sensation in part of the body.''),
      (''tachycardia'',
       js ''Resting heart rate faster than normal, above ~100 beats per minute.''),
      (''hot flush'',
       js ''Sudden feeling of warmth spreading through the body, often with redness.''),
      (''dyspnoea'',
       js ''Shortness of breath or difficulty breathing.''),
      (''chest pain'',
       js ''Discomfort, pressure, or sharp pain felt in the chest area.''),
      (''irritability'',
       js ''Feeling easily annoyed, frustrated, or agitated.''),
      (''mood swings'',
       js ''Rapid or unpredictable changes in emotional state.''),
      (''drug hypersensitivity'',
       js ''An allergic-type reaction to a medication.''),
      (''urticaria'',
       js ''Raised, itchy welts on the skin, commonly called hives.''),
      (''fall'',
       js ''Loss of balance leading to an unintended drop to the ground.''),
      (''amnesia'',
       js ''Partial or total memory loss, often short-term.''),
      (''confusional state'',
       js ''Difficulty thinking clearly, feeling disoriented or muddled.'')]"

text \<open>
  The client's \<^verbatim>\<open>FALLBACK_SIDE_EFFECTS\<close> object: lower-case medication name to term
  list.
\<close>

definition FALLBACK_SIDE_EFFECTS :: "(jstring \<times> jstring list) list" where
  "FALLBACK_SIDE_EFFECTS = map (\<lambda>(k, terms). (js k, map js terms))
     [
      (''sertraline'',
       [''nausea'', ''diarrhea'', ''insomnia'', ''dry mouth'', ''fatigue'', ''dizziness'',
        ''headache'', ''decreased appetite'', ''hyperhidrosis'', ''tremor'',
        ''sexual dysfunction'', ''somnolence'']),
      (''zoloft'',
       [''nausea'', ''diarrhea'', ''insomnia'', ''dry mouth'', ''fatigue'', ''dizziness'',
        ''headache'', ''decreased appetite'', ''hyperhidrosis'', ''tremor'',
        ''sexual dysfunction'', ''somnolence'']),
      (''fluoxetine'',
       [''nausea'', ''headache'', ''insomnia'', ''anxiety'', ''somnolence'', ''diarrhea'',
        ''decreased appetite'', ''dry mouth'', ''tremor'', ''dizziness'', ''asthenia'',
        ''hyperhidrosis'']),
      (''prozac'',
       [''nausea'', ''headache'', ''insomnia'', ''anxiety'', ''somnolence'', ''diarrhea'',
        ''decreased appetite'', ''dry mouth'', ''tremor'', ''dizziness'', ''asthenia'',
        ''hyperhidrosis'']),
      (''escitalopram'',
       [''nausea'', ''headache'', ''insomnia'', ''somnolence'', ''diarrhea'', ''dry mouth'',
        ''dizziness'', ''fatigue'', ''constipation'', ''hyperhidrosis'', ''libido decreased'',
        ''sexual dysfunction'']),
      (''lexapro'',
       [''nausea'', ''headache'', ''insomnia'', ''somnolence'', ''diarrhea'', ''dry mouth'',
        ''dizziness'', ''fatigue'', ''constipation'', ''hyperhidrosis'', ''libido decreased'',
        ''sexual dysfunction'']),
      (''citalopram'',
       [''nausea'', ''dry mouth'', ''somnolence'', ''insomnia'', ''diarrhea'', ''headache'',
        ''dizziness'', ''tremor'', ''hyperhidrosis'', ''fatigue'', ''decreased appetite'',
        ''constipation'']),
      (''celexa'',
       [''nausea'', ''dry mouth'', ''somnolence'', ''insomnia'', ''diarrhea'', ''headache'',
        ''dizziness'', ''tremor'', ''hyperhidrosis'', ''fatigue'', ''decreased appetite'',
        ''constipation'']),
      (''paroxetine'',
       [''nausea'', ''somnolence'', ''dry mouth'', ''headache'', ''constipation'',
        ''dizziness'', ''insomnia'', ''diarrhea'', ''asthenia'', ''tremor'', ''hyperhidrosis'',
        ''sexual dysfunction'']),
      (''paxil'',
       [''nausea'', ''somnolence'', ''dry mouth'', ''headache'', ''constipation'',
        ''dizziness'', ''insomnia'', ''diarrhea'', ''asthenia'', ''tremor'', ''hyperhidrosis'',
        ''sexual dysfunction'']),
      (''venlafaxine'',
       [''nausea'', ''headache'', ''dizziness'', ''somnolence'', ''dry mouth'', ''insomnia'',
        ''constipation'', ''hyperhidrosis'', ''asthenia'', ''anxiety'', ''blurred vision'',
        ''tremor'']),
      (''effexor'',
       [''nausea'', ''headache'', ''dizziness'', ''somnolence'', ''dry mouth'', ''insomnia'',
        ''constipation'', ''hyperhidrosis'', ''asthenia'', ''anxiety'', ''blurred vision'',
        ''tremor'']),
      (''duloxetine'',
       [''nausea'', ''headache'', ''dry mouth'', ''fatigue'', ''somnolence'', ''constipation'',
        ''dizziness'', ''insomnia'', ''diarrhea'', ''decreased appetite'', ''hyperhidrosis'',
        ''abdominal pain'']),
      (''cymbalta'',
       [''nausea'', ''headache'', ''dry mouth'', ''fatigue'', ''somnolence'', ''constipation'',
        ''dizziness'', ''insomnia'', ''diarrhea'', ''decreased appetite'', ''hyperhidrosis'',
        ''abdominal pain'']),
      (''bupropion'',
       [''headache'', ''dry mouth'', ''nausea'', ''insomnia'', ''dizziness'', ''constipation'',
        ''tremor'', ''anxiety'', ''tachycardia'', ''hyperhidrosis'', ''rash'',
        ''abdominal pain'']),
      (''wellbutrin'',
       [''headache'', ''dry mouth'', ''nausea'', ''insomnia'', ''dizziness'', ''constipation'',
        ''tremor'', ''anxiety'', ''tachycardia'', ''hyperhidrosis'', ''rash'',
        ''abdominal pain'']),
      (''mirtazapine'',
       [''somnolence'', ''increased appetite'', ''weight increased'', ''dry mouth'',
        ''dizziness'', ''constipation'', ''asthenia'', ''fatigue'', ''peripheral edema'',
        ''headache'', ''abnormal dreams'', ''confusional state'']),
      (''remeron'',
       [''somnolence'', ''increased appetite'', ''weight increased'', ''dry mouth'',
        ''dizziness'', ''constipation'', ''asthenia'', ''fatigue'', ''peripheral edema'',
        ''headache'', ''abnormal dreams'', ''confusional state'']),
      (''trazodone'',
       [''somnolence'', ''headache'', ''dry mouth'', ''dizziness'', ''nausea'', ''fatigue'',
        ''constipation'', ''blurred vision'', ''nasal congestion'', ''hyperhidrosis'',
        ''confusion'', ''palpitations'']),
      (''amitriptyline'',
       [''somnolence'', ''dry mouth'', ''constipation'', ''dizziness'', ''weight increased'',
        ''blurred vision'', ''headache'', ''nausea'', ''fatigue'', ''urinary retention'',
        ''tachycardia'', ''tremor'']),
      (''alprazolam'',
       [''somnolence'', ''dizziness'', ''fatigue'', ''headache'', ''dry mouth'',
        ''constipation'', ''nausea'', ''irritability'', ''decreased appetite'',
        ''confusional state'', ''insomnia'', ''blurred vision'']),
      (''xanax'',
       [''somnolence'', ''dizziness'', ''fatigue'', ''headache'', ''dry mouth'',
        ''constipation'', ''nausea'', ''irritability'', ''decreased appetite'',
        ''confusional state'', ''insomnia'', ''blurred vision'']),
      (''lorazepam'',
       [''somnolence'', ''dizziness'', ''fatigue'', ''headache'', ''confusional state'',
        ''nausea'', ''amnesia'', ''depression'', ''constipation'', ''blurred vision'',
        ''asthenia'', ''irritability'']),
      (''ativan'',
       [''somnolence'', ''dizziness'', ''fatigue'', ''headache'', ''confusional state'',
        ''nausea'', ''amnesia'', ''depression'', ''constipation'', ''blurred vision'',
        ''asthenia'', ''irritability'']),
      (''clonazepam'',
       [''somnolence'', ''dizziness'', ''fatigue'', ''depression'', ''headache'',
        ''confusional state'', ''nausea'', ''amnesia'', ''constipation'',
        ''decreased appetite'', ''irritability'', ''insomnia'']),
      (''klonopin'',
       [''somnolence'', ''dizziness'', ''fatigue'', ''depression'', ''headache'',
        ''confusional state'', ''nausea'', ''amnesia'', ''constipation'',
        ''decreased appetite'', ''irritability'', ''insomnia'']),
      (''diazepam'',
       [''somnolence'', ''fatigue'', ''dizziness'', ''headache'', ''confusional state'',
        ''amnesia'', ''nausea'', ''constipation'', ''depression'', ''blurred vision'',
        ''asthenia'', ''tremor'']),
      (''valium'',
       [''somnolence'', ''fatigue'', ''dizziness'', ''headache'', ''confusional state'',
        ''amnesia'', ''nausea'', ''constipation'', ''depression'', ''blurred vision'',
        ''asthenia'', ''tremor'']),
      (''quetiapine'',
       [''somnolence'', ''dizziness'', ''headache'', ''dry mouth'', ''weight increased'',
        ''constipation'', ''fatigue'', ''dyspepsia'', ''tachycardia'', ''peripheral edema'',
        ''blurred vision'', ''increased appetite'']),
      (''seroquel'',
       [''somnolence'', ''dizziness'', ''headache'', ''dry mouth'', ''weight increased'',
        ''constipation'', ''fatigue'', ''dyspepsia'', ''tachycardia'', ''peripheral edema'',
        ''blurred vision'', ''increased appetite'']),
      (''aripiprazole'',
       [''headache'', ''nausea'', ''insomnia'', ''anxiety'', ''somnolence'', ''constipation'',
        ''dizziness'', ''vomiting'', ''fatigue'', ''blurred vision'', ''weight increased'',
        ''tremor'']),
      (''abilify'',
       [''headache'', ''nausea'', ''insomnia'', ''anxiety'', ''somnolence'', ''constipation'',
        ''dizziness'', ''vomiting'', ''fatigue'', ''blurred vision'', ''weight increased'',
        ''tremor'']),
      (''lamotrigine'',
       [''headache'', ''nausea'', ''rash'', ''dizziness'', ''insomnia'', ''somnolence'',
        ''fatigue'', ''blurred vision'', ''vomiting'', ''tremor'', ''back pain'', ''rhinitis'']),
      (''lamictal'',
       [''headache'', ''nausea'', ''rash'', ''dizziness'', ''insomnia'', ''somnolence'',
        ''fatigue'', ''blurred vision'', ''vomiting'', ''tremor'', ''back pain'', ''rhinitis'']),
      (''lithium'',
       [''nausea'', ''tremor'', ''diarrhea'', ''vomiting'', ''dizziness'', ''fatigue'',
        ''headache'', ''weight increased'', ''dry mouth'', ''tachycardia'', ''polyuria'',
        ''thirst'']),
      (''gabapentin'',
       [''somnolence'', ''dizziness'', ''fatigue'', ''headache'', ''nausea'',
        ''peripheral edema'', ''weight increased'', ''blurred vision'', ''dry mouth'',
        ''constipation'', ''tremor'', ''ataxia'']),
      (''neurontin'',
       [''somnolence'', ''dizziness'', ''fatigue'', ''headache'', ''nausea'',
        ''peripheral edema'', ''weight increased'', ''blurred vision'', ''dry mouth'',
        ''constipation'', ''tremor'', ''ataxia'']),
      (''pregabalin'',
       [''dizziness'', ''somnolence'', ''headache'', ''peripheral edema'', ''dry mouth'',
        ''weight increased'', ''blurred vision'', ''fatigue'', ''constipation'', ''nausea'',
        ''tremor'', ''back pain'']),
      (''lyrica'',
       [''dizziness'', ''somnolence'', ''headache'', ''peripheral edema'', ''dry mouth'',
        ''weight increased'', ''blurred vision'', ''fatigue'', ''constipation'', ''nausea'',
        ''tremor'', ''back pain'']),
      (''metformin'',
       [''diarrhea'', ''nausea'', ''vomiting'', ''abdominal pain'', ''flatulence'',
        ''decreased appetite'', ''headache'', ''dyspepsia'', ''asthenia'', ''fatigue'',
        ''dizziness'', ''constipation'']),
      (''lisinopril'',
       [''headache'', ''dizziness'', ''cough'', ''fatigue'', ''nausea'', ''diarrhea'',
        ''hypotension'', ''rash'', ''chest pain'', ''dyspnoea'', ''back pain'', ''asthenia'']),
      (''amlodipine'',
       [''peripheral edema'', ''headache'', ''dizziness'', ''fatigue'', ''nausea'',
        ''flushing'', ''palpitations'', ''somnolence'', ''abdominal pain'', ''dyspnoea'',
        ''chest pain'', ''back pain'']),
      (''atorvastatin'',
       [''headache'', ''myalgia'', ''arthralgia'', ''diarrhea'', ''nausea'', ''back pain'',
        ''pain in extremity'', ''insomnia'', ''urinary tract infection'', ''dyspepsia'',
        ''nasopharyngitis'', ''fatigue'']),
      (''lipitor'',
       [''headache'', ''myalgia'', ''arthralgia'', ''diarrhea'', ''nausea'', ''back pain'',
        ''pain in extremity'', ''insomnia'', ''urinary tract infection'', ''dyspepsia'',
        ''nasopharyngitis'', ''fatigue'']),
      (''omeprazole'',
       [''headache'', ''diarrhea'', ''nausea'', ''abdominal pain'', ''flatulence'',
        ''constipation'', ''vomiting'', ''dizziness'', ''rash'', ''cough'', ''back pain'',
        ''fatigue'']),
      (''prilosec'',
       [''headache'', ''diarrhea'', ''nausea'', ''abdominal pain'', ''flatulence'',
        ''constipation'', ''vomiting'', ''dizziness'', ''rash'', ''cough'', ''back pain'',
        ''fatigue'']),
      (''pantoprazole'',
       [''headache'', ''diarrhea'', ''nausea'', ''abdominal pain'', ''flatulence'',
        ''constipation'', ''vomiting'', ''dizziness'', ''arthralgia'', ''insomnia'', ''rash'',
        ''fatigue'']),
      (''levothyroxine'',
       [''headache'', ''fatigue'', ''palpitations'', ''insomnia'', ''tremor'', ''anxiety'',
        ''diarrhea'', ''weight decreased'', ''hyperhidrosis'', ''hot flush'', ''alopecia'',
        ''nausea'']),
      (''synthroid'',
       [''headache'', ''fatigue'', ''palpitations'', ''insomnia'', ''tremor'', ''anxiety'',
        ''diarrhea'', ''weight decreased'', ''hyperhidrosis'', ''hot flush'', ''alopecia'',
        ''nausea'']),
      (''metoprolol'',
       [''fatigue'', ''dizziness'', ''headache'', ''diarrhea'', ''nausea'', ''bradycardia'',
        ''dyspnoea'', ''depression'', ''insomnia'', ''peripheral edema'', ''chest pain'',
        ''back pain'']),
      (''losartan'',
       [''dizziness'', ''headache'', ''fatigue'', ''back pain'', ''diarrhea'', ''cough'',
        ''nausea'', ''chest pain'', ''dyspnoea'', ''peripheral edema'', ''insomnia'',
        ''arthralgia'']),
      (''hydrochlorothiazide'',
       [''dizziness'', ''headache'', ''fatigue'', ''nausea'', ''muscle cramps'',
        ''hypokalaemia'', ''hyperuricaemia'', ''dyspepsia'', ''diarrhea'', ''back pain'',
        ''blurred vision'', ''rash'']),
      (''montelukast'',
       [''headache'', ''upper respiratory tract infection'', ''cough'', ''abdominal pain'',
        ''diarrhea'', ''nausea'', ''fatigue'', ''rash'', ''insomnia'', ''dizziness'',
        ''fever'', ''irritability'']),
      (''singulair'',
       [''headache'', ''upper respiratory tract infection'', ''cough'', ''abdominal pain'',
        ''diarrhea'', ''nausea'', ''fatigue'', ''rash'', ''insomnia'', ''dizziness'',
        ''fever'', ''irritability'']),
      (''ibuprofen'',
       [''nausea'', ''headache'', ''dizziness'', ''dyspepsia'', ''abdominal pain'',
        ''diarrhea'', ''constipation'', ''vomiting'', ''rash'', ''flatulence'', ''edema'',
        ''fatigue'']),
      (''advil'',
       [''nausea'', ''headache'', ''dizziness'', ''dyspepsia'', ''abdominal pain'',
        ''diarrhea'', ''constipation'', ''vomiting'', ''rash'', ''flatulence'', ''edema'',
        ''fatigue'']),
      (''acetaminophen'',
       [''nausea'', ''headache'', ''rash'', ''vomiting'', ''abdominal pain'', ''diarrhea'',
        ''fatigue'', ''dizziness'', ''pruritus'', ''constipation'', ''insomnia'', ''dyspepsia'']),
      (''tylenol'',
       [''nausea'', ''headache'', ''rash'', ''vomiting'', ''abdominal pain'', ''diarrhea'',
        ''fatigue'', ''dizziness'', ''pruritus'', ''constipation'', ''insomnia'', ''dyspepsia'']),
      (''aspirin'',
       [''nausea'', ''dyspepsia'', ''abdominal pain'', ''diarrhea'', ''headache'',
        ''dizziness'', ''vomiting'', ''rash'', ''fatigue'', ''pruritus'', ''tinnitus'',
        ''constipation'']),
      (''adderall'',
       [''decreased appetite'', ''insomnia'', ''headache'', ''dry mouth'', ''nausea'',
        ''anxiety'', ''dizziness'', ''tachycardia'', ''irritability'', ''abdominal pain'',
        ''weight decreased'', ''palpitations'']),
      (''methylphenidate'',
       [''decreased appetite'', ''insomnia'', ''headache'', ''nausea'', ''abdominal pain'',
        ''anxiety'', ''dizziness'', ''irritability'', ''tachycardia'', ''weight decreased'',
        ''dry mouth'', ''vomiting'']),
      (''ritalin'',
       [''decreased appetite'', ''insomnia'', ''headache'', ''nausea'', ''abdominal pain'',
        ''anxiety'', ''dizziness'', ''irritability'', ''tachycardia'', ''weight decreased'',
        ''dry mouth'', ''vomiting'']),
      (''concerta'',
       [''decreased appetite'', ''insomnia'', ''headache'', ''nausea'', ''abdominal pain'',
        ''anxiety'', ''dizziness'', ''irritability'', ''tachycardia'', ''weight decreased'',
        ''dry mouth'', ''vomiting'']),
      (''lisdexamfetamine'',
       [''decreased appetite'', ''insomnia'', ''dry mouth'', ''headache'', ''nausea'',
        ''irritability'', ''anxiety'', ''dizziness'', ''weight decreased'', ''diarrhea'',
        ''tachycardia'', ''vomiting'']),
      (''vyvanse'',
       [''decreased appetite'', ''insomnia'', ''dry mouth'', ''headache'', ''nausea'',
        ''irritability'', ''anxiety'', ''dizziness'', ''weight decreased'', ''diarrhea'',
        ''tachycardia'', ''vomiting'']),
      (''atomoxetine'',
       [''nausea'', ''decreased appetite'', ''headache'', ''dry mouth'', ''insomnia'',
        ''dizziness'', ''constipation'', ''fatigue'', ''vomiting'', ''abdominal pain'',
        ''somnolence'', ''irritability'']),
      (''strattera'',
       [''nausea'', ''decreased appetite'', ''headache'', ''dry mouth'', ''insomnia'',
        ''dizziness'', ''constipation'', ''fatigue'', ''vomiting'', ''abdominal pain'',
        ''somnolence'', ''irritability'']),
      (''prednisone'',
       [''weight increased'', ''insomnia'', ''mood swings'', ''increased appetite'',
        ''headache'', ''nausea'', ''edema'', ''fatigue'', ''dizziness'', ''dyspepsia'',
        ''muscle pain'', ''hyperhidrosis'']),
      (''amoxicillin'',
       [''diarrhea'', ''nausea'', ''rash'', ''vomiting'', ''headache'', ''abdominal pain'',
        ''pruritus'', ''urticaria'', ''fatigue'', ''dizziness'', ''dyspepsia'', ''flatulence'']),
      (''azithromycin'',
       [''diarrhea'', ''nausea'', ''abdominal pain'', ''vomiting'', ''headache'', ''rash'',
        ''fatigue'', ''dizziness'', ''pruritus'', ''flatulence'', ''dyspepsia'',
        ''constipation'']),
      (''zithromax'',
       [''diarrhea'', ''nausea'', ''abdominal pain'', ''vomiting'', ''headache'', ''rash'',
        ''fatigue'', ''dizziness'', ''pruritus'', ''flatulence'', ''dyspepsia'',
        ''constipation'']),
      (''ciprofloxacin'',
       [''nausea'', ''diarrhea'', ''headache'', ''rash'', ''vomiting'', ''abdominal pain'',
        ''dizziness'', ''arthralgia'', ''insomnia'', ''dyspepsia'', ''fatigue'', ''myalgia'']),
      (''warfarin'',
       [''haemorrhage'', ''nausea'', ''rash'', ''fatigue'', ''headache'', ''dizziness'',
        ''abdominal pain'', ''pruritus'', ''alopecia'', ''vomiting'', ''diarrhea'',
        ''chest pain'']),
      (''coumadin'',
       [''haemorrhage'', ''nausea'', ''rash'', ''fatigue'', ''headache'', ''dizziness'',
        ''abdominal pain'', ''pruritus'', ''alopecia'', ''vomiting'', ''diarrhea'',
        ''chest pain''])]"

text \<open>
  The server's \<^verbatim>\<open>DESCRIPTIONS\<close> object, a shorter table with partly other wording.
\<close>

definition SERVER_DESCRIPTIONS :: "(jstring \<times> jstring) list" where
  "SERVER_DESCRIPTIONS = map (\<lambda>(k, d). (js k, d))
     [
      (''nausea'',
       js ''A queasy feeling in the stomach that may cause an urge to vomit.''),
      (''headache'',
       js ''Pain or pressure in the head, ranging from mild to severe.''),
      (''dizziness'',
       js ''A sensation of lightheadedness or feeling unsteady on your feet.''),
      (''fatigue'',
       js ''Persistent tiredness or exhaustion that doesn'' @ [0x27] @ js ''t improve with rest.''),
      (''diarrhoea'',
       js ''Frequent loose or watery bowel movements.''),
      (''diarrhea'',
       js ''Frequent loose or watery bowel movements.''),
      (''vomiting'',
       js ''Forceful emptying of the stomach contents through the mouth.''),
      (''insomnia'',
       js ''Difficulty falling asleep, staying asleep, or waking too early.''),
      (''somnolence'',
       js ''Excessive drowsiness or sleepiness during the day.''),
      (''dry mouth'',
       js ''Reduced saliva production causing a parched feeling in the mouth.''),
      (''constipation'',
       js ''Infrequent or difficult bowel movements.''),
      (''abdominal pain'',
       js ''Discomfort or cramping felt between the chest and pelvis.''),
      (''rash'',
       js ''A noticeable change in the color or texture of the skin.''),
      (''anxiety'',
       js ''Feelings of worry, nervousness, or unease.''),
      (''tremor'',
       js ''Involuntary shaking or trembling, often in the hands.''),
      (''decreased appetite'',
       js ''Reduced desire to eat or feeling full very quickly.''),
      (''palpitations'',
       js ''Awareness of your heartbeat, which may feel fast or fluttering.''),
      (''blurred vision'',
       js ''Difficulty seeing clearly, as though looking through fog.''),
      (''myalgia'',
       js ''Muscle aches or soreness, often felt as a dull pain.''),
      (''arthralgia'',
       js ''Pain in one or more joints without visible swelling.''),
      (''dyspepsia'',
       js ''Indigestion '' @ [0x2014] @ js '' discomfort or burning in the upper stomach area.''),
      (''pruritus'',
       js ''Persistent itching of the skin that causes an urge to scratch.''),
      (''hyperhidrosis'',
       js ''Excessive sweating beyond what is needed to cool the body.''),
      (''depression'',
       js ''Persistent feelings of sadness, hopelessness, or loss of interest.''),
      (''asthenia'',
       js ''Overall weakness or lack of energy making daily activities harder.''),
      (''paraesthesia'',
       js ''Tingling, numbness, or a pins and needles sensation.''),
      (''irritability'',
       js ''Feeling easily annoyed, frustrated, or agitated.''),
      (''weight increased'',
       js ''Noticeable gain in body weight since starting medication.''),
      (''weight decreased'',
       js ''Noticeable loss in body weight since starting medication.''),
      (''malaise'',
       js ''A general feeling of discomfort, unease, or being unwell.''),
      (''hot flush'',
       js ''Sudden feeling of warmth spreading through the body.''),
      (''tachycardia'',
       js ''Resting heart rate faster than normal, above ~100 bpm.''),
      (''dyspnoea'',
       js ''Shortness of breath or difficulty breathing.''),
      (''urticaria'',
       js ''Raised, itchy welts on the skin, commonly called hives.''),
      (''confusional state'',
       js ''Difficulty thinking clearly, feeling disoriented.''),
      (''alopecia'',
       js ''Thinning or loss of hair from the scalp or body.''),
      (''oedema'',
       js ''Swelling caused by fluid buildup, often in feet or hands.''),
      (''edema'',
       js ''Swelling caused by fluid buildup, often in feet or hands.'')]"

section \<open>Side-effect records and the normalizer\<close>

text \<open>
  A stored side-effect record, as the client reads it back: a bare string (the old
  format), an object whose \<^verbatim>\<open>name\<close> and \<^verbatim>\<open>description\<close> are strings or absent,
  or \<^verbatim>\<open>null\<close>.
\<close>

datatype side_effect =
    Legacy jstring
  | Structured "jstring option" "jstring option"
  | NullRecord

text \<open>
  The description of a record the resolver builds is the string a table holds, or the
  empty string, or the inherited member the lookup returned, when the looked-up term is
  a name of \<^verbatim>\<open>Object.prototype\<close>.
\<close>

datatype descr = Described jstring | PrototypeMember

datatype effect_record = EffectRecord (se_name: jstring) (se_description: descr)

text \<open>\<^verbatim>\<open>obj[key] || otherwise\<close>, for a table of strings.\<close>

definition or_else :: "jstring slot \<Rightarrow> descr \<Rightarrow> descr" where
  "or_else looked_up otherwise =
     (case looked_up of
        Own d \<Rightarrow> if d \<noteq> [] then Described d else otherwise
      | Inherited \<Rightarrow> PrototypeMember
      | Undefined \<Rightarrow> otherwise)"

text \<open>The \<^verbatim>\<open>map\<close> over the terms of a table entry.\<close>

definition table_records :: "jstring list \<Rightarrow> effect_record list" where
  "table_records terms =
     map (\<lambda>term. EffectRecord (toTitleCase term)
            (or_else (get_property DESCRIPTIONS term) (Described [])))
       terms"

text \<open>
  \<^verbatim>\<open>buildFromFallback\<close>: \<^verbatim>\<open>null\<close> is \<open>None\<close>. When the key is a name of
  \<^verbatim>\<open>Object.prototype\<close>, \<^verbatim>\<open>terms\<close> is an inherited member, \<^verbatim>\<open>!terms\<close> is false
  and \<^verbatim>\<open>terms.map\<close> is not a function: the call throws a TypeError.
\<close>

definition buildFromFallback :: "jstring \<Rightarrow> exn + effect_record list option" where
  "buildFromFallback medName =
     (let key = trim (toLowerCase medName)
      in case get_property FALLBACK_SIDE_EFFECTS key of
           Undefined \<Rightarrow> Inr None
         | Inherited \<Rightarrow> Inl TypeError
         | Own terms \<Rightarrow> Inr (Some (table_records terms)))"

text \<open>
  The external adverse-event service, as the code sees one request: the fetch or the
  reading of the body fails, the status is not ok, or the body holds the terms of
  \<^verbatim>\<open>data.results\<close> (no \<^verbatim>\<open>results\<close> field is the empty list: both throw). The
  service is a parameter of the model, a function of the upper-cased name the request
  URL carries.
\<close>

datatype fda_reply = FetchFails | NotOk | Results "jstring list"

text \<open>\<^verbatim>\<open>term.replace(/s$/, "")\<close>\<close>

definition strip_final_s :: "jstring \<Rightarrow> jstring" where
  "strip_final_s term = (if term \<noteq> [] \<and> last term = 0x73 then butlast term else term)"

text \<open>
  The chain \<^verbatim>\<open>map\<close>, \<^verbatim>\<open>filter\<close>, \<^verbatim>\<open>slice(0, 12)\<close>, \<^verbatim>\<open>map\<close> over the results,
  the same in the client and in the server but for the table of descriptions.
\<close>

definition fda_records :: "(jstring \<times> jstring) list \<Rightarrow> jstring list \<Rightarrow> effect_record list" where
  "fda_records descriptions results =
     map (\<lambda>term. EffectRecord (toTitleCase term)
            (or_else (get_property descriptions term)
               (or_else (get_property descriptions (strip_final_s term)) (Described []))))
       (take 12 (filter (\<lambda>term. term \<notin> set EXCLUDED_TERMS) (map toLowerCase results)))"

definition fetchSideEffectsFromFDA ::
  "(jstring \<Rightarrow> fda_reply) \<Rightarrow> jstring \<Rightarrow> exn + effect_record list" where
  "fetchSideEffectsFromFDA fda medName =
     (case fda (toUpperCase medName) of
        FetchFails \<Rightarrow> Inl IOError
      | NotOk \<Rightarrow> Inl Failure
      | Results results \<Rightarrow>
          if results = [] then Inl Failure else Inr (fda_records DESCRIPTIONS results))"

subsection \<open>The simplified name\<close>

text \<open>
  \<^verbatim>\<open>medName.replace(/\s*(hcl|hydrochloride|sulfate|sodium|er|xr|cr|sr)\s*/gi, "").trim()\<close>

  Without the \<^verbatim>\<open>u\<close> flag, ignoring case compares code units after upper-casing, and
  never maps a code unit above U+007F to one below: a token's letter matches itself and
  its capital only.

  \<open>remove_suffix_tokens\<close> is the global replace by the empty string. At each index the
  match skips the spaces there, then needs one of the tokens (tried in the order
  written), then skips the spaces behind it; taking fewer spaces never helps, since no
  token starts with a space. A match is dropped and the scan goes on behind it; where
  nothing matches the unit is kept and the scan moves one unit on.
\<close>

definition suffix_tokens :: "jstring list" where
  "suffix_tokens = map js
     [''hcl'', ''hydrochloride'', ''sulfate'', ''sodium'', ''er'', ''xr'', ''cr'', ''sr'']"

definition canonicalize :: "nat \<Rightarrow> nat" where
  "canonicalize c = (if 0x61 \<le> c \<and> c \<le> 0x7A then c - 0x20 else c)"

fun matches_at :: "jstring \<Rightarrow> jstring \<Rightarrow> bool" where
  "matches_at [] s = True"
| "matches_at (p # ps) [] = False"
| "matches_at (p # ps) (c # cs) = (canonicalize c = canonicalize p \<and> matches_at ps cs)"

definition match_token :: "jstring \<Rightarrow> jstring option" where
  "match_token s = find (\<lambda>t. matches_at t s) suffix_tokens"

function remove_suffix_tokens :: "jstring \<Rightarrow> jstring" where
  "remove_suffix_tokens [] = []"
| "remove_suffix_tokens (c # cs) =
     (case match_token (dropWhile is_space (c # cs)) of
        Some t \<Rightarrow>
          remove_suffix_tokens
            (dropWhile is_space (drop (length t) (dropWhile is_space (c # cs))))
      | None \<Rightarrow> c # remove_suffix_tokens cs)"
  by pat_completeness auto
termination
proof (relation "measure length")
  show "wf (measure length)" by simp
next
  fix c :: nat and cs t :: jstring
  assume m: "match_token (dropWhile is_space (c # cs)) = Some t"
  let ?rest = "dropWhile is_space (c # cs)"
  have nonempty: "0 < length t"
    using m unfolding match_token_def suffix_tokens_def js_def
    by (auto simp: find_Some_iff nth_Cons' split: if_splits)
  have "length (dropWhile is_space (drop (length t) ?rest)) \<le> length (drop (length t) ?rest)"
    by (rule length_dropWhile_le)
  also have "\<dots> = length ?rest - length t" by simp
  also have "\<dots> \<le> length (c # cs) - length t"
    using length_dropWhile_le [of is_space "c # cs"] by (rule diff_le_mono)
  also have "\<dots> < length (c # cs)"
    using nonempty by simp
  finally show "(dropWhile is_space (drop (length t) ?rest), c # cs) \<in> measure length"
    by simp
next
  fix c :: nat and cs :: jstring
  show "(cs, c # cs) \<in> measure length" by simp
qed

definition simplify_name :: "jstring \<Rightarrow> jstring" where
  "simplify_name medName = trim (remove_suffix_tokens medName)"

subsection \<open>The client's resolver\<close>

text \<open>
  \<^verbatim>\<open>normalizeSideEffects\<close>, applied to what the proxy returns. \<^verbatim>\<open>String(item)\<close> of
  an object is \<^verbatim>\<open>[object Object]\<close> and of \<^verbatim>\<open>null\<close> is \<^verbatim>\<open>null\<close>.
\<close>

definition normalizeSideEffects :: "side_effect list \<Rightarrow> effect_record list" where
  "normalizeSideEffects arr =
     filter (\<lambda>item. se_name item \<noteq> [] \<and> se_name item \<noteq> js ''undefined''
                    \<and> se_name item \<noteq> js ''null'')
       (map (\<lambda>item. case item of
               Legacy s \<Rightarrow>
                 EffectRecord (toTitleCase s)
                   (or_else (get_property DESCRIPTIONS (toLowerCase s)) (Described []))
             | Structured n d \<Rightarrow>
                 (case n of
                    Some t \<Rightarrow>
                      if t \<noteq> []
                      then EffectRecord t (Described (case d of Some x \<Rightarrow> x | None \<Rightarrow> []))
                      else EffectRecord (js ''[object Object]'') (Described [])
                  | None \<Rightarrow> EffectRecord (js ''[object Object]'') (Described []))
             | NullRecord \<Rightarrow> EffectRecord (js ''null'') (Described []))
          arr)"

text \<open>
  The proxy, as the client sees one request: the fetch or the reading of the body fails,
  the status is not ok, or the body holds \<^verbatim>\<open>data.sideEffects\<close> (absent, or a list).
  \<open>proxy_tier\<close> is the first \<^verbatim>\<open>try\<close> block of \<^verbatim>\<open>fetchSideEffects\<close>: \<open>None\<close> when
  control leaves the block without returning.
\<close>

datatype proxy_reply = ProxyFails | ProxyNotOk | ProxyData "side_effect list option"

definition proxy_tier :: "(jstring \<Rightarrow> proxy_reply) \<Rightarrow> jstring \<Rightarrow> effect_record list option" where
  "proxy_tier proxy medName =
     (case proxy medName of
        ProxyFails \<Rightarrow> None
      | ProxyNotOk \<Rightarrow> None
      | ProxyData sideEffects \<Rightarrow>
          (case sideEffects of
             None \<Rightarrow> None
           | Some arr \<Rightarrow> if length arr > 0 then Some (normalizeSideEffects arr) else None))"

definition not_found :: "jstring \<Rightarrow> effect_record list" where
  "not_found medName =
     [EffectRecord (js ''No data found'')
        (Described (js ''Could not find side effects for '' @ [0x22] @ medName @ [0x22]
                    @ js ''. Try the generic drug name.''))]"

text \<open>
  \<^verbatim>\<open>buildFromFallback(medName) || buildFromFallback(simplified)\<close>, then the sentinel.
  Neither call stands in a \<^verbatim>\<open>try\<close> block.
\<close>

definition fallback_tier :: "jstring \<Rightarrow> jstring \<Rightarrow> exn + effect_record list" where
  "fallback_tier medName simplified =
     (case buildFromFallback medName of
        Inl e \<Rightarrow> Inl e
      | Inr (Some fallback) \<Rightarrow> Inr fallback
      | Inr None \<Rightarrow>
          (case buildFromFallback simplified of
             Inl e \<Rightarrow> Inl e
           | Inr (Some fallback) \<Rightarrow> Inr fallback
           | Inr None \<Rightarrow> Inr (not_found medName)))"

text \<open>
  The retry with the simplified name. When the simplified name is the name itself the
  retry is skipped, and control goes on as after a failed retry.
\<close>

definition retry_simplified ::
  "(jstring \<Rightarrow> fda_reply) \<Rightarrow> jstring \<Rightarrow> jstring \<Rightarrow> exn + effect_record list" where
  "retry_simplified fda medName simplified =
     (if simplified \<noteq> medName then fetchSideEffectsFromFDA fda simplified else Inl Failure)"

definition fetchSideEffects ::
  "(jstring \<Rightarrow> proxy_reply) \<Rightarrow> (jstring \<Rightarrow> fda_reply) \<Rightarrow> jstring \<Rightarrow> exn + effect_record list" where
  "fetchSideEffects proxy fda medName =
     (case proxy_tier proxy medName of
        Some found \<Rightarrow> Inr found
      | None \<Rightarrow>
          (case fetchSideEffectsFromFDA fda medName of
             Inr found \<Rightarrow> Inr found
           | Inl _ \<Rightarrow>
               (let simplified = simplify_name medName
                in case retry_simplified fda medName simplified of
                     Inr found \<Rightarrow> Inr found
                   | Inl _ \<Rightarrow> fallback_tier medName simplified)))"

text \<open>Examples: no network at all, and a service that knows one product.\<close>

definition no_proxy :: "jstring \<Rightarrow> proxy_reply" where
  "no_proxy medName = ProxyFails"

definition no_service :: "jstring \<Rightarrow> fda_reply" where
  "no_service product = FetchFails"


definition excluded_only_service :: "jstring \<Rightarrow> fda_reply" where
  "excluded_only_service product = Results [js ''DEATH'', js ''Drug Ineffective'']"

definition sertraline_terms :: "jstring list" where
  "sertraline_terms = map js
     [''nausea'', ''diarrhea'', ''insomnia'', ''dry mouth'', ''fatigue'', ''dizziness'',
      ''headache'', ''decreased appetite'', ''hyperhidrosis'', ''tremor'',
      ''sexual dysfunction'', ''somnolence'']"

section \<open>The server\<close>

subsection \<open>Documents and files\<close>

text \<open>
  A number, as \<^verbatim>\<open>JSON.parse\<close> and the body parser return it: a finite number
  other than negative zero, given by its value (\<open>Finite 0\<close> is the positive zero),
  the negative zero that the literal \<^verbatim>\<open>-0\<close> denotes, or an infinity, which a
  literal too large for a double such as \<^verbatim>\<open>1e400\<close> denotes. \<^verbatim>\<open>NaN\<close> is what no
  literal denotes and a caller may still hand over.
\<close>

datatype number = Finite rat | NegativeZero | PlusInfinity | MinusInfinity | NotANumber

text \<open>A value of the kinds JSON knows; an object by its own properties.\<close>

datatype json =
    JNull
  | JBool bool
  | JNum number
  | JStr jstring
  | JArr "json list"
  | JObj "(jstring \<times> json) list"

text \<open>
  The content of a file is read only through \<^verbatim>\<open>JSON.parse\<close>, and written only as
  \<^verbatim>\<open>JSON.stringify(data, null, 2)\<close> or as a copy of what was read. So a content is
  modelled by what parsing makes of it: the text of a value, which parses to that
  value, or text that \<^verbatim>\<open>JSON.parse\<close> rejects.
\<close>

datatype content = Serialized json | Malformed

text \<open>
  What the text that \<^verbatim>\<open>JSON.stringify\<close> writes for a value parses to. A finite
  number is written with the digits that denote it again; the negative zero is written
  \<^verbatim>\<open>0\<close>; an infinity and \<^verbatim>\<open>NaN\<close> are written \<^verbatim>\<open>null\<close>, in an array and in
  an object alike. Strings, booleans and \<^verbatim>\<open>null\<close> are written as they are, and an
  object with its own properties in their order. (No value here has a property that is
  a function, a symbol or \<^verbatim>\<open>undefined\<close>, which \<^verbatim>\<open>JSON.stringify\<close> would leave
  out, nor a \<^verbatim>\<open>toJSON\<close> method.) Values are taken within the limits of the host:
  a value nested so deep, or so long, that \<^verbatim>\<open>JSON.stringify\<close> runs out of stack or
  of string length is not part of the model.
\<close>

primrec written_number :: "number \<Rightarrow> json" where
  "written_number (Finite q) = JNum (Finite q)"
| "written_number NegativeZero = JNum (Finite 0)"
| "written_number PlusInfinity = JNull"
| "written_number MinusInfinity = JNull"
| "written_number NotANumber = JNull"

primrec as_written :: "json \<Rightarrow> json" where
  "as_written JNull = JNull"
| "as_written (JBool b) = JBool b"
| "as_written (JNum n) = written_number n"
| "as_written (JStr s) = JStr s"
| "as_written (JArr vs) = JArr (map as_written vs)"
| "as_written (JObj kvs) = JObj (map (map_prod id as_written) kvs)"

text \<open>
  A path of the data directory: nothing there, something there that \<^verbatim>\<open>readFile\<close>
  cannot read, or a file with its content.
\<close>

datatype path_state = Absent | Unreadable | File content

text \<open>
  The part of the file system the server touches. The three flags say whether
  \<^verbatim>\<open>mkdir\<close> of the data directory and \<^verbatim>\<open>writeFile\<close> to the two paths succeed.
  A successful \<^verbatim>\<open>writeFile\<close> replaces the content of the path; what could not be
  read before the write (a file whose permissions forbid reading) cannot be read after
  it.
\<close>

record fs =
  dir_exists :: bool
  mkdir_ok :: bool
  data_file :: path_state
  backup_file :: path_state
  data_writable :: bool
  backup_writable :: bool

definition existsSync :: "path_state \<Rightarrow> bool" where
  "existsSync f = (f \<noteq> Absent)"

definition readFile :: "path_state \<Rightarrow> exn + content" where
  "readFile f =
     (case f of File t \<Rightarrow> Inr t | Unreadable \<Rightarrow> Inl IOError | Absent \<Rightarrow> Inl IOError)"

definition JSON_parse :: "content \<Rightarrow> exn + json" where
  "JSON_parse t = (case t of Serialized v \<Rightarrow> Inr v | Malformed \<Rightarrow> Inl SyntaxError)"

definition JSON_stringify :: "json \<Rightarrow> content" where
  "JSON_stringify v = Serialized (as_written v)"

definition written_over :: "path_state \<Rightarrow> content \<Rightarrow> path_state" where
  "written_over f t = (case f of Unreadable \<Rightarrow> Unreadable | _ \<Rightarrow> File t)"

definition writeFile_data :: "fs \<Rightarrow> content \<Rightarrow> exn + fs" where
  "writeFile_data s t =
     (if data_writable s then Inr (s\<lparr>data_file := written_over (data_file s) t\<rparr>)
      else Inl IOError)"

definition writeFile_backup :: "fs \<Rightarrow> content \<Rightarrow> exn + fs" where
  "writeFile_backup s t =
     (if backup_writable s then Inr (s\<lparr>backup_file := written_over (backup_file s) t\<rparr>)
      else Inl IOError)"

definition DEFAULT_STATE :: json where
  "DEFAULT_STATE = JObj
     [(js ''dailyAssessments'', JObj []),
      (js ''medications'', JArr []),
      (js ''sideEffectSeverities'', JObj []),
      (js ''journal'', JObj []),
      (js ''notes'', JStr []),
      (js ''theme'', JStr (js ''light''))]"

definition ensureDataDir :: "fs \<Rightarrow> exn + fs" where
  "ensureDataDir s =
     (if \<not> dir_exists s
      then (if mkdir_ok s then Inr (s\<lparr>dir_exists := True\<rparr>) else Inl IOError)
      else Inr s)"

subsection \<open>readPatientData\<close>

text \<open>
  \<^verbatim>\<open>parsed && typeof parsed === 'object' && 'dailyAssessments' in parsed\<close>: of the
  values \<^verbatim>\<open>JSON.parse\<close> returns, the objects and the arrays have type
  \<^verbatim>\<open>'object'\<close> and are truthy; an array has no such key.
\<close>

definition shape_ok :: "json \<Rightarrow> bool" where
  "shape_ok parsed =
     (case parsed of
        JObj kvs \<Rightarrow> js ''dailyAssessments'' \<in> set (map fst kvs)
      | JArr _ \<Rightarrow> False
      | _ \<Rightarrow> False)"

text \<open>
  The \<^verbatim>\<open>try\<close> block of \<^verbatim>\<open>readPatientData\<close>: it returns a document, or an
  exception leaves it.
\<close>

definition read_primary :: "fs \<Rightarrow> fs \<times> (exn + json)" where
  "read_primary s =
     (case ensureDataDir s of
        Inl e \<Rightarrow> (s, Inl e)
      | Inr s1 \<Rightarrow>
          if \<not> existsSync (data_file s1) then (s1, Inr DEFAULT_STATE)
          else (case readFile (data_file s1) of
                  Inl e \<Rightarrow> (s1, Inl e)
                | Inr raw \<Rightarrow>
                    (case JSON_parse raw of
                       Inl e \<Rightarrow> (s1, Inl e)
                     | Inr parsed \<Rightarrow>
                         if shape_ok parsed then (s1, Inr parsed)
                         else (s1, Inr DEFAULT_STATE))))"

text \<open>
  The inner \<^verbatim>\<open>try\<close> block of the handler: the backup, parsed and returned as it is.
\<close>

definition read_backup :: "fs \<Rightarrow> exn + json option" where
  "read_backup s =
     (if existsSync (backup_file s)
      then (case readFile (backup_file s) of
              Inl e \<Rightarrow> Inl e
            | Inr backup \<Rightarrow> (case JSON_parse backup of Inl e \<Rightarrow> Inl e | Inr v \<Rightarrow> Inr (Some v)))
      else Inr None)"

text \<open>
  \<^verbatim>\<open>readPatientData\<close>: the \<^verbatim>\<open>catch\<close> handler runs the inner block, ignores what
  it throws, and returns the default document when the inner block did not return.
\<close>

definition readPatientData :: "fs \<Rightarrow> fs \<times> (exn + json)" where
  "readPatientData s =
     (case read_primary s of
        (s1, Inr v) \<Rightarrow> (s1, Inr v)
      | (s1, Inl err) \<Rightarrow>
          (case read_backup s1 of
             Inr (Some v) \<Rightarrow> (s1, Inr v)
           | Inr None \<Rightarrow> (s1, Inr DEFAULT_STATE)
           | Inl _ \<Rightarrow> (s1, Inr DEFAULT_STATE)))"

subsection \<open>writePatientData\<close>

text \<open>The first \<^verbatim>\<open>try\<close> block of \<^verbatim>\<open>writePatientData\<close>: the copy to the backup.\<close>

definition copy_to_backup :: "fs \<Rightarrow> exn + fs" where
  "copy_to_backup s =
     (if existsSync (data_file s)
      then (case readFile (data_file s) of
              Inl e \<Rightarrow> Inl e
            | Inr existing \<Rightarrow> writeFile_backup s existing)
      else Inr s)"

definition writePatientData :: "fs \<Rightarrow> json \<Rightarrow> exn + fs" where
  "writePatientData s data =
     (case ensureDataDir s of
        Inl e \<Rightarrow> Inl e
      | Inr s1 \<Rightarrow>
          (let s2 = (case copy_to_backup s1 of Inr s' \<Rightarrow> s' | Inl _ \<Rightarrow> s1)
           in writeFile_data s2 (JSON_stringify data)))"

subsection \<open>POST /api/side-effects\<close>

definition queryFDA :: "(jstring \<Rightarrow> fda_reply) \<Rightarrow> jstring \<Rightarrow> exn + effect_record list" where
  "queryFDA fda name =
     (case fda (toUpperCase name) of
        FetchFails \<Rightarrow> Inl IOError
      | NotOk \<Rightarrow> Inl Failure
      | Results results \<Rightarrow>
          if results = [] then Inl Failure else Inr (fda_records SERVER_DESCRIPTIONS results))"

datatype response = Status400 jstring | Status200 "effect_record list"

definition no_reports :: "jstring \<Rightarrow> effect_record list" where
  "no_reports medName =
     [EffectRecord (js ''No data found'')
        (Described (js ''No adverse event reports for '' @ [0x22] @ medName @ [0x22]
                    @ js ''. Try the generic name.''))]"

text \<open>
  The handler after the check of the request: \<^verbatim>\<open>medName\<close> is the trimmed name.
  When the simplified name is the name itself the retry is skipped, and control goes on
  as after a failed retry.
\<close>

definition lookup_side_effects :: "(jstring \<Rightarrow> fda_reply) \<Rightarrow> jstring \<Rightarrow> response" where
  "lookup_side_effects fda medName =
     (case queryFDA fda medName of
        Inr found \<Rightarrow> Status200 found
      | Inl _ \<Rightarrow>
          (let simplified = simplify_name medName
           in case (if simplified \<noteq> medName then queryFDA fda simplified else Inl Failure) of
                Inr found \<Rightarrow> Status200 found
              | Inl _ \<Rightarrow> Status200 (no_reports medName)))"

text \<open>
  The handler. \<^verbatim>\<open>medication\<close> is the field of the request body, \<open>None\<close> when the
  body has no such field.
\<close>

definition post_side_effects :: "(jstring \<Rightarrow> fda_reply) \<Rightarrow> json option \<Rightarrow> response" where
  "post_side_effects fda medication =
     (case medication of
        Some (JStr s) \<Rightarrow>
          if s = [] \<or> trim s = [] then Status400 (js ''Medication name is required'')
          else lookup_side_effects fda (trim s)
      | _ \<Rightarrow> Status400 (js ''Medication name is required''))"

subsection \<open>Notions the statements about the store use\<close>

text \<open>
  The data directory is there or can be made; a primary file that is there and cannot be
  read or parsed; what the handler of \<^verbatim>\<open>readPatientData\<close> returns for a given
  backup path.
\<close>

definition dir_ready :: "fs \<Rightarrow> bool" where
  "dir_ready s = (dir_exists s \<or> mkdir_ok s)"

definition damaged :: "path_state \<Rightarrow> bool" where
  "damaged f = (case f of Unreadable \<Rightarrow> True | File Malformed \<Rightarrow> True | _ \<Rightarrow> False)"

definition backup_or_default :: "path_state \<Rightarrow> json" where
  "backup_or_default f = (case f of File (Serialized b) \<Rightarrow> b | _ \<Rightarrow> DEFAULT_STATE)"

text \<open>
  A value that holds no number but finite ones other than the negative zero: the values
  that are written and parsed back unchanged.
\<close>

primrec plain_number :: "number \<Rightarrow> bool" where
  "plain_number (Finite q) = True"
| "plain_number NegativeZero = False"
| "plain_number PlusInfinity = False"
| "plain_number MinusInfinity = False"
| "plain_number NotANumber = False"

fun plain :: "json \<Rightarrow> bool" where
  "plain JNull = True"
| "plain (JBool b) = True"
| "plain (JNum n) = plain_number n"
| "plain (JStr s) = True"
| "plain (JArr vs) = list_all plain vs"
| "plain (JObj kvs) = list_all (\<lambda>kv. plain (snd kv)) kvs"

subsection \<open>Notions the statements about the handler use\<close>


subsection \<open>Examples\<close>

text \<open>Example documents and stores.\<close>

definition saved_doc :: json where
  "saved_doc = JObj [(js ''dailyAssessments'', JObj []), (js ''notes'', JStr (js ''kept''))]"

definition later_doc :: json where
  "later_doc = JObj [(js ''dailyAssessments'', JObj []), (js ''notes'', JStr (js ''newer''))]"

definition shapeless_doc :: json where
  "shapeless_doc = JObj [(js ''notes'', JStr (js ''kept''))]"

definition overflowing_doc :: json where
  "overflowing_doc = JObj [(js ''dailyAssessments'', JObj []), (js ''x'', JNum PlusInfinity)]"

definition empty_store :: fs where
  "empty_store =
     \<lparr>dir_exists = False, mkdir_ok = True, data_file = Absent, backup_file = Absent,
      data_writable = True, backup_writable = True\<rparr>"

definition shape_failing_store :: fs where
  "shape_failing_store =
     \<lparr>dir_exists = True, mkdir_ok = True, data_file = File (Serialized shapeless_doc),
      backup_file = File (Serialized saved_doc), data_writable = True, backup_writable = True\<rparr>"

definition damaged_store :: fs where
  "damaged_store =
     \<lparr>dir_exists = True, mkdir_ok = True, data_file = File Malformed,
      backup_file = File (Serialized saved_doc), data_writable = True, backup_writable = True\<rparr>"

section \<open>The aggregation engine\<close>

text \<open>
  A medication as the aggregation reads it. \<^verbatim>\<open>endDate\<close> and \<^verbatim>\<open>sideEffects\<close> may be
  absent (or \<^verbatim>\<open>null\<close>); the form stores the empty string for no end date.
\<close>

record medication =
  med_id :: jstring
  name :: jstring
  dosage :: jstring
  startDate :: jstring
  endDate :: "jstring option"
  sideEffects :: "side_effect list option"

text \<open>The value of the accumulating \<^verbatim>\<open>map\<close> under one name.\<close>

record aggregated =
  meds :: "jstring list"
  count :: int
  description :: jstring

text \<open>
  \<^verbatim>\<open>state.medications.filter(m => !m.endDate || m.endDate >= selectedDate)\<close>
\<close>

definition activeMeds :: "medication list \<Rightarrow> jstring \<Rightarrow> medication list" where
  "activeMeds medications selectedDate =
     filter (\<lambda>m. case endDate m of None \<Rightarrow> True | Some e \<Rightarrow> e = [] \<or> selectedDate \<le> e)
       medications"

text \<open>\<^verbatim>\<open>m.sideEffects || []\<close>\<close>

definition effects :: "medication \<Rightarrow> side_effect list" where
  "effects m = (case sideEffects m of Some ses \<Rightarrow> ses | None \<Rightarrow> [])"

text \<open>
  \<^verbatim>\<open>typeof se === "string" ? se : (se && se.name ? se.name : String(se))\<close>: a legacy
  string is taken as it stands.
\<close>

definition effect_name :: "side_effect \<Rightarrow> jstring" where
  "effect_name se =
     (case se of
        Legacy s \<Rightarrow> s
      | Structured n _ \<Rightarrow>
          (case n of
             Some t \<Rightarrow> if t \<noteq> [] then t else js ''[object Object]''
           | None \<Rightarrow> js ''[object Object]'')
      | NullRecord \<Rightarrow> js ''null'')"

text \<open>
  \<^verbatim>\<open>typeof se === "object" && se !== null ? (se.description || "") : ""\<close>
\<close>

definition effect_desc :: "side_effect \<Rightarrow> jstring" where
  "effect_desc se =
     (case se of
        Structured _ d \<Rightarrow> (case d of Some t \<Rightarrow> t | None \<Rightarrow> [])
      | Legacy _ \<Rightarrow> []
      | NullRecord \<Rightarrow> [])"

text \<open>
  The three statements that follow the creation of the entry: push the medication's
  name, add one to the count, keep the longer description.
\<close>

definition record_occurrence :: "jstring \<Rightarrow> jstring \<Rightarrow> aggregated \<Rightarrow> aggregated" where
  "record_occurrence med_name desc e =
     (let e1 = e\<lparr>meds := meds e @ [med_name]\<rparr>;
          e2 = e1\<lparr>count := count e1 + 1\<rparr>
      in if desc \<noteq> [] \<and> length desc > length (description e2)
         then e2\<lparr>description := desc\<rparr> else e2)"

text \<open>
  The body of the inner \<^verbatim>\<open>forEach\<close>. \<^verbatim>\<open>map\<close> is a plain object: under a name of
  \<^verbatim>\<open>Object.prototype\<close> that is not yet an own key, \<^verbatim>\<open>map[name]\<close> is an inherited
  member, no entry is created, and \<^verbatim>\<open>map[name].meds.push\<close> throws a TypeError.
\<close>

definition add_effect ::
  "jstring \<Rightarrow> side_effect \<Rightarrow> (jstring \<times> aggregated) list \<Rightarrow> exn + (jstring \<times> aggregated) list" where
  "add_effect med_name se amap =
     (let nm = effect_name se; desc = effect_desc se
      in if nm = [] \<or> nm = js ''undefined'' then Inr amap
         else (case get_property amap nm of
                 Undefined \<Rightarrow>
                   Inr (amap @ [(nm, record_occurrence med_name desc
                                       \<lparr>meds = [], count = 0, description = desc\<rparr>)])
               | Own e \<Rightarrow> Inr (set_property amap nm (record_occurrence med_name desc e))
               | Inherited \<Rightarrow> Inl TypeError))"

definition add_medication ::
  "medication \<Rightarrow> (jstring \<times> aggregated) list \<Rightarrow> exn + (jstring \<times> aggregated) list" where
  "add_medication m amap = forEach (add_effect (name m)) (effects m) amap"

text \<open>
  The comparator of the final sort. \<^verbatim>\<open>localeCompare\<close> is the collation of the host,
  a parameter of the model.
\<close>

definition compare_entries ::
  "(jstring \<Rightarrow> jstring \<Rightarrow> int) \<Rightarrow> jstring \<times> aggregated \<Rightarrow> jstring \<times> aggregated \<Rightarrow> int" where
  "compare_entries localeCompare a b =
     (if count (snd b) \<noteq> count (snd a) then count (snd b) - count (snd a)
      else localeCompare (fst a) (fst b))"

definition allSideEffects ::
  "(jstring \<Rightarrow> jstring \<Rightarrow> int) \<Rightarrow> medication list \<Rightarrow> exn + (jstring \<times> aggregated) list" where
  "allSideEffects localeCompare active =
     (case forEach add_medication active [] of
        Inl e \<Rightarrow> Inl e
      | Inr amap \<Rightarrow> Inr (array_sort (compare_entries localeCompare) (object_entries amap)))"

text \<open>
  What a consistent comparator is, as far as the sort needs it: any two names are
  comparable, and the order is transitive.
\<close>

definition consistent_comparator :: "(jstring \<Rightarrow> jstring \<Rightarrow> int) \<Rightarrow> bool" where
  "consistent_comparator lc \<longleftrightarrow>
     (\<forall>a b. lc a b \<le> 0 \<or> lc b a \<le> 0) \<and>
     (\<forall>a b c. lc a b \<le> 0 \<longrightarrow> lc b c \<le> 0 \<longrightarrow> lc a c \<le> 0)"

text \<open>
  One consistent comparator, for the examples. On names made of ASCII letters, as
  those of the examples are, it orders as the collation of an English host does: the
  names are compared letter by letter without regard to case, a proper prefix first;
  names that differ in case only are ordered by the first letter in which they differ,
  the small letter before the capital.
\<close>

definition fold_case :: "nat \<Rightarrow> nat" where
  "fold_case c = (if 0x41 \<le> c \<and> c \<le> 0x5A then c + 0x20 else c)"

definition english_localeCompare :: "jstring \<Rightarrow> jstring \<Rightarrow> int" where
  "english_localeCompare a b =
     (if map fold_case a < map fold_case b then - 1
      else if map fold_case b < map fold_case a then 1
      else if b < a then - 1
      else if a < b then 1
      else 0)"

text \<open>
  Notions the statements about the aggregation use: a name the aggregation keeps, the
  names a medication lists, the records of a list of medications in the order the two
  loops visit them, each with the name of its medication, and those of them that carry
  a given name.
\<close>

definition usable :: "jstring \<Rightarrow> bool" where
  "usable n = (n \<noteq> [] \<and> n \<noteq> js ''undefined'')"

definition listed_names :: "medication \<Rightarrow> jstring list" where
  "listed_names m = filter usable (map effect_name (effects m))"

definition occurrences :: "medication list \<Rightarrow> (jstring \<times> side_effect) list" where
  "occurrences ms = concat (map (\<lambda>m. map (Pair (name m)) (effects m)) ms)"

definition add_occurrence ::
  "jstring \<times> side_effect \<Rightarrow> (jstring \<times> aggregated) list \<Rightarrow> exn + (jstring \<times> aggregated) list" where
  "add_occurrence p = add_effect (fst p) (snd p)"

definition hits :: "jstring \<Rightarrow> (jstring \<times> side_effect) list \<Rightarrow> (jstring \<times> side_effect) list" where
  "hits n occs = filter (\<lambda>p. effect_name (snd p) = n) occs"

text \<open>Example medications and the date the examples look at them from.\<close>

definition sertraline :: medication where
  "sertraline =
     \<lparr>med_id = js ''1700000000000'', name = js ''Sertraline'', dosage = js ''50mg'',
      startDate = js ''2024-01-01'', endDate = Some [],
      sideEffects = Some [Legacy (js ''Nausea''),
                          Structured (Some (js ''Headache'')) (Some (js ''Pain.''))]\<rparr>"

definition ibuprofen :: medication where
  "ibuprofen =
     \<lparr>med_id = js ''1700000000001'', name = js ''Ibuprofen'', dosage = [],
      startDate = js ''2024-01-05'', endDate = Some (js ''2024-03-01''),
      sideEffects = Some [Structured (Some (js ''Nausea'')) (Some (js ''A queasy feeling.'')),
                          Structured (Some (js ''Dizziness'')) None]\<rparr>"

definition aspirin :: medication where
  "aspirin =
     \<lparr>med_id = js ''1600000000000'', name = js ''Aspirin'', dosage = [],
      startDate = js ''2023-01-05'', endDate = Some (js ''2023-03-01''),
      sideEffects = Some [Legacy (js ''Nausea'')]\<rparr>"

definition repeating :: medication where
  "repeating =
     \<lparr>med_id = js ''1700000000002'', name = js ''Sertraline'', dosage = [],
      startDate = js ''2024-01-01'', endDate = None,
      sideEffects = Some [Structured (Some (js ''Nausea'')) (Some []),
                          Structured (Some (js ''Nausea'')) (Some [])]\<rparr>"


definition odd_name :: medication where
  "odd_name =
     \<lparr>med_id = js ''1500000000001'', name = js ''Imported'', dosage = [],
      startDate = js ''2023-06-01'', endDate = None,
      sideEffects = Some [Legacy (js ''constructor'')]\<rparr>"

definition reference_date :: jstring where
  "reference_date = js ''2024-02-01''"

definition example_view :: "(jstring \<times> aggregated) list" where
  "example_view =
     [(js ''Nausea'', \<lparr>meds = [js ''Sertraline'', js ''Ibuprofen''], count = 2,
                         description = js ''A queasy feeling.''\<rparr>),
      (js ''Dizziness'', \<lparr>meds = [js ''Ibuprofen''], count = 1, description = []\<rparr>),
      (js ''Headache'', \<lparr>meds = [js ''Sertraline''], count = 1, description = js ''Pain.''\<rparr>)]"

section \<open>The client's state\<close>

text \<open>
  The document the client holds. Its objects keyed by date and by name are maps; an
  assessment and a day's severities are maps from a key to a number.
\<close>

record patient_state =
  dailyAssessments :: "jstring \<rightharpoonup> (jstring \<rightharpoonup> int)"
  medications :: "medication list"
  sideEffectSeverities :: "jstring \<rightharpoonup> (jstring \<rightharpoonup> int)"
  journal :: "jstring \<rightharpoonup> jstring"
  notes' :: jstring
  theme :: jstring

definition CLIENT_DEFAULT_STATE :: patient_state where
  "CLIENT_DEFAULT_STATE =
     \<lparr>dailyAssessments = Map.empty, medications = [], sideEffectSeverities = Map.empty,
      journal = Map.empty, notes' = [], theme = js ''light''\<rparr>"

text \<open>
  \<^verbatim>\<open>update = fn => setState(prev => ({ ...prev, ...fn(prev) }))\<close>. The object
  \<^verbatim>\<open>fn(prev)\<close> is the list of its properties, and spreading it over \<^verbatim>\<open>prev\<close>
  assigns them one after the other.
\<close>

datatype property =
    DailyAssessments "jstring \<rightharpoonup> (jstring \<rightharpoonup> int)"
  | Medications "medication list"
  | SideEffectSeverities "jstring \<rightharpoonup> (jstring \<rightharpoonup> int)"
  | Journal "jstring \<rightharpoonup> jstring"
  | Notes jstring
  | Theme jstring

fun assign :: "patient_state \<Rightarrow> property \<Rightarrow> patient_state" where
  "assign p (DailyAssessments v) = p\<lparr>dailyAssessments := v\<rparr>"
| "assign p (Medications v) = p\<lparr>medications := v\<rparr>"
| "assign p (SideEffectSeverities v) = p\<lparr>sideEffectSeverities := v\<rparr>"
| "assign p (Journal v) = p\<lparr>journal := v\<rparr>"
| "assign p (Notes v) = p\<lparr>notes' := v\<rparr>"
| "assign p (Theme v) = p\<lparr>theme := v\<rparr>"

definition update :: "(patient_state \<Rightarrow> property list) \<Rightarrow> patient_state \<Rightarrow> patient_state" where
  "update fn prev = foldl assign prev (fn prev)"

text \<open>
  \<^verbatim>\<open>{ ...(p.sideEffectSeverities[selectedDate] || {}) }\<close>: the own entries of the
  day, or none. A member inherited from \<^verbatim>\<open>Object.prototype\<close> has no enumerable
  property of its own, so spreading it gives none either.
\<close>

definition spread_or_empty ::
  "(jstring \<rightharpoonup> (jstring \<rightharpoonup> int)) \<Rightarrow> jstring \<Rightarrow> (jstring \<rightharpoonup> int)" where
  "spread_or_empty obj k = (case obj k of Some entry \<Rightarrow> entry | None \<Rightarrow> Map.empty)"

definition default_assessment :: "jstring \<rightharpoonup> int" where
  "default_assessment =
     [js ''general'' \<mapsto> 5, js ''energy'' \<mapsto> 5, js ''concentration'' \<mapsto> 5, js ''sleep'' \<mapsto> 5]"

text \<open>
  \<^verbatim>\<open>state.dailyAssessments[selectedDate] || { general: 5, ... }\<close>, as the
  properties a later spread copies. It is computed when the component renders, from the
  state of that render.
\<close>

definition todayAssessment :: "patient_state \<Rightarrow> jstring \<Rightarrow> (jstring \<rightharpoonup> int)" where
  "todayAssessment rendered selectedDate =
     (case dailyAssessments rendered selectedDate of
        Some entry \<Rightarrow> entry
      | None \<Rightarrow>
          if selectedDate \<in> set object_prototype_keys then Map.empty else default_assessment)"

definition setAssessment ::
  "patient_state \<Rightarrow> jstring \<Rightarrow> jstring \<Rightarrow> int \<Rightarrow> patient_state \<Rightarrow> patient_state" where
  "setAssessment rendered selectedDate key val =
     update (\<lambda>p. [DailyAssessments
       ((dailyAssessments p)(selectedDate \<mapsto> (todayAssessment rendered selectedDate)(key \<mapsto> val)))])"

definition setSeverity :: "jstring \<Rightarrow> jstring \<Rightarrow> int \<Rightarrow> patient_state \<Rightarrow> patient_state" where
  "setSeverity selectedDate effect val =
     update (\<lambda>p. [SideEffectSeverities
       ((sideEffectSeverities p)
          (selectedDate \<mapsto> (spread_or_empty (sideEffectSeverities p) selectedDate)(effect \<mapsto> val)))])"

definition setJournal :: "jstring \<Rightarrow> jstring \<Rightarrow> patient_state \<Rightarrow> patient_state" where
  "setJournal selectedDate val = update (\<lambda>p. [Journal ((journal p)(selectedDate \<mapsto> val))])"

definition setNotes :: "jstring \<Rightarrow> patient_state \<Rightarrow> patient_state" where
  "setNotes val = update (\<lambda>_. [Notes val])"

definition setMedications :: "medication list \<Rightarrow> patient_state \<Rightarrow> patient_state" where
  "setMedications new_list = update (\<lambda>_. [Medications new_list])"

text \<open>\<^verbatim>\<open>dark\<close> is computed when the component renders.\<close>

definition toggleTheme :: "patient_state \<Rightarrow> patient_state \<Rightarrow> patient_state" where
  "toggleTheme rendered =
     update (\<lambda>_. [Theme (if theme rendered = js ''dark'' then js ''light'' else js ''dark'')])"

section \<open>The debounced auto-save\<close>

text \<open>
  The component with its timers, on a clock that counts milliseconds. A pending timer is
  its id, the time it is due and the state its callback closed over;
  \<^verbatim>\<open>saveTimer.current\<close> holds the id of the last timer set. \<open>pushes\<close> lists the
  arguments of the calls of \<^verbatim>\<open>saveToServer\<close> the timers have made. The
  \<^verbatim>\<open>syncing\<close> indicator and the timer that resets it are left out: nothing here
  reads them.
\<close>

record client =
  state :: patient_state
  loaded :: bool
  initialLoad :: bool
  saveTimer :: "nat option"
  cleanup_registered :: bool
  timers :: "(nat \<times> nat \<times> patient_state) list"
  next_timer :: nat
  now :: nat
  pushes :: "patient_state list"

definition setTimeout :: "patient_state \<Rightarrow> nat \<Rightarrow> client \<Rightarrow> nat \<times> client" where
  "setTimeout snapshot delay c =
     (next_timer c,
      c\<lparr>timers := timers c @ [(next_timer c, now c + delay, snapshot)],
        next_timer := Suc (next_timer c)\<rparr>)"

definition clearTimeout :: "nat option \<Rightarrow> client \<Rightarrow> client" where
  "clearTimeout tid c = c\<lparr>timers := filter (\<lambda>t. Some (fst t) \<noteq> tid) (timers c)\<rparr>"

text \<open>
  The body of the effect with the dependencies \<^verbatim>\<open>[state, loaded]\<close>. Only its last
  branch returns a cleanup function.
\<close>

definition auto_save_effect :: "client \<Rightarrow> client" where
  "auto_save_effect c =
     (if \<not> loaded c then c\<lparr>cleanup_registered := False\<rparr>
      else if initialLoad c then c\<lparr>initialLoad := False, cleanup_registered := False\<rparr>
      else (let c1 = clearTimeout (saveTimer c) c;
                (tid, c2) = setTimeout (state c1) 600 c1
            in c2\<lparr>saveTimer := Some tid, cleanup_registered := True\<rparr>))"

text \<open>
  A render in which a dependency has changed: the cleanup of the previous run, when it
  returned one, then the effect.
\<close>

definition commit :: "client \<Rightarrow> client" where
  "commit c =
     auto_save_effect (if cleanup_registered c then clearTimeout (saveTimer c) c else c)"

text \<open>
  Time passes: the timers that have come due fire, the earliest first, and each calls
  \<^verbatim>\<open>saveToServer\<close> with the state it closed over.
\<close>

definition elapse :: "nat \<Rightarrow> client \<Rightarrow> client" where
  "elapse d c =
     (let t = now c + d;
          due = sort_key (\<lambda>x. fst (snd x)) (filter (\<lambda>x. fst (snd x) \<le> t) (timers c))
      in c\<lparr>now := t,
           timers := filter (\<lambda>x. t < fst (snd x)) (timers c),
           pushes := pushes c @ map (\<lambda>x. snd (snd x)) due\<rparr>)"

text \<open>
  What happens to the component: the promise of \<^verbatim>\<open>loadFromServer\<close> resolves (with a
  document or with \<^verbatim>\<open>null\<close>) and sets the state and \<^verbatim>\<open>loaded\<close>; a handler calls
  \<^verbatim>\<open>update\<close>, which always makes a new state object, so the effect runs; time
  passes.
\<close>

datatype event =
    LoadDone "patient_state option"
  | Mutation "patient_state \<Rightarrow> patient_state"
  | Elapse nat

fun step :: "client \<Rightarrow> event \<Rightarrow> client" where
  "step c (LoadDone data) =
     commit (c\<lparr>state := (case data of Some d \<Rightarrow> d | None \<Rightarrow> state c), loaded := True\<rparr>)"
| "step c (Mutation fn) = commit (c\<lparr>state := fn (state c)\<rparr>)"
| "step c (Elapse d) = elapse d c"

definition run :: "client \<Rightarrow> event list \<Rightarrow> client" where
  "run c events = foldl step c events"

text \<open>The component after its first render, whose effect finds \<^verbatim>\<open>loaded\<close> false.\<close>

definition mount :: client where
  "mount = auto_save_effect
     \<lparr>state = CLIENT_DEFAULT_STATE, loaded = False, initialLoad = True, saveTimer = None,
      cleanup_registered = False, timers = [], next_timer = 0, now = 0, pushes = []\<rparr>"

text \<open>
  A sequence of mutations, each given with the time that has passed since the event
  before it.
\<close>

definition burst :: "(nat \<times> (patient_state \<Rightarrow> patient_state)) list \<Rightarrow> event list" where
  "burst ms = concat (map (\<lambda>m. [Elapse (fst m), Mutation (snd m)]) ms)"

text \<open>
  After a mutation of a loaded component exactly one timer is pending: the one
  \<^verbatim>\<open>saveTimer.current\<close> names, due 600 ms from now, holding the current state.
\<close>

definition armed :: "client \<Rightarrow> bool" where
  "armed c \<longleftrightarrow> loaded c \<and> \<not> initialLoad c \<and> cleanup_registered c \<and>
     (\<exists>i. timers c = [(i, now c + 600, state c)] \<and> saveTimer c = Some i)"

section \<open>Properties of the normalizer\<close>

lemma is_space_upper_unit: "is_space c \<Longrightarrow> upper_unit c = [c]"
  unfolding is_space_def upper_unit_def by auto

lemma lower_unit_idem: "lower_unit (lower_unit c) = lower_unit c"
  unfolding lower_unit_def by auto

lemma lower_upper_ascii:
  "c < 0x80 \<Longrightarrow> lower_unit c = c \<Longrightarrow> map lower_unit (upper_unit c) = [c]"
  unfolding lower_unit_def upper_unit_def by (auto split: if_splits)

lemma toLowerCase_idem: "toLowerCase (toLowerCase s) = toLowerCase s"
  by (simp add: toLowerCase_def lower_unit_idem)

lemma is_ascii_toLowerCase: "is_ascii s \<Longrightarrow> is_ascii (toLowerCase s)"
  unfolding is_ascii_def toLowerCase_def lower_unit_def
  by (induction s) auto

text \<open>
  Lower-casing undoes the capitalisation on a lower-case ASCII string: the replacement
  touches single letters only and leaves every space where it was.
\<close>

lemma toLowerCase_capitalize_matches:
  "is_ascii s \<Longrightarrow> toLowerCase s = s \<Longrightarrow> toLowerCase (capitalize_matches b s) = s"
proof (induction b s rule: capitalize_matches.induct)
  case (1 at_start)
  show ?case by (simp add: toLowerCase_def)
next
  case (2 at_start c)
  then show ?case
    by (simp add: toLowerCase_def toUpperCase_def is_ascii_def lower_upper_ascii)
next
  case (3 at_start c d ds)
  then show ?case
    by (simp add: toLowerCase_def toUpperCase_def is_ascii_def lower_upper_ascii
        is_space_upper_unit)
qed

text \<open>
  C9, as amended. Title-casing is a function of its argument alone, and on a string of
  ASCII code units it is idempotent: title-casing a title-cased string gives the same
  string.
\<close>

theorem toTitleCase_idempotent_ascii:
  assumes "is_ascii x"
  shows "toTitleCase (toTitleCase x) = toTitleCase x"
proof -
  have "toLowerCase (capitalize_matches True (toLowerCase x)) = toLowerCase x"
    using assms by (simp add: toLowerCase_capitalize_matches is_ascii_toLowerCase
        toLowerCase_idem)
  then show ?thesis by (simp add: toTitleCase_def)
qed

theorem toTitleCase_idempotent_ascii_witness:
  "is_ascii (js ''dry mouth'') \<and>
   toTitleCase (toTitleCase (js ''dry mouth'')) = toTitleCase (js ''dry mouth'') \<and>
   toTitleCase (js ''dry mouth'') = js ''Dry Mouth''"
proof -
  have a: "is_ascii (js ''dry mouth'')"
    by (simp add: is_ascii_def js_def)
  have "toTitleCase (js ''dry mouth'') = js ''Dry Mouth''"
    by (simp add: toTitleCase_def toLowerCase_def toUpperCase_def lower_unit_def
        upper_unit_def is_space_def js_def)
  with a toTitleCase_idempotent_ascii [OF a] show ?thesis by simp
qed

text \<open>
  C9, as stated, fails outside ASCII: the upper case of the one code unit U+00DF is
  \<open>SS\<close>, and title-casing \<open>SS\<close> gives \<open>Ss\<close>.
\<close>

theorem toTitleCase_sharp_s_not_idempotent:
  "toTitleCase (toTitleCase [0xDF]) \<noteq> toTitleCase [0xDF]"
  by (simp add: toTitleCase_def toLowerCase_def toUpperCase_def lower_unit_def
      upper_unit_def is_space_def)

section \<open>Properties of the persistent store\<close>

lemmas store_defs =
  readPatientData_def read_primary_def read_backup_def writePatientData_def copy_to_backup_def
  ensureDataDir_def existsSync_def readFile_def JSON_parse_def JSON_stringify_def
  writeFile_data_def writeFile_backup_def written_over_def

lemma readPatientData_returns: "\<exists>v. snd (readPatientData s) = Inr v"
  unfolding readPatientData_def
  by (auto split: prod.splits sum.splits option.splits)

lemma read_shape_failure:
  "dir_ready s \<Longrightarrow> data_file s = File (Serialized parsed) \<Longrightarrow> \<not> shape_ok parsed \<Longrightarrow>
   snd (readPatientData s) = Inr DEFAULT_STATE"
  unfolding store_defs dir_ready_def by auto

lemma read_damaged:
  "damaged (data_file s) \<Longrightarrow> snd (readPatientData s) = Inr (backup_or_default (backup_file s))"
  unfolding store_defs damaged_def backup_or_default_def
  by (auto split: path_state.splits content.splits)

text \<open>
  C4, as amended. \<^verbatim>\<open>readPatientData\<close> never throws. A primary document that is
  there and cannot be read or parsed makes it return the backup, when the backup is
  there and parses, and the default document otherwise. A primary document that parses
  and fails the shape check makes it return the default document at once, whatever the
  backup holds.
\<close>

theorem readPatientData_fallback:
  "(\<exists>v. snd (readPatientData s) = Inr v) \<and>
   (damaged (data_file s) \<longrightarrow>
      snd (readPatientData s) = Inr (backup_or_default (backup_file s))) \<and>
   (dir_ready s \<and> data_file s = File (Serialized parsed) \<and> \<not> shape_ok parsed \<longrightarrow>
      snd (readPatientData s) = Inr DEFAULT_STATE)"
  using readPatientData_returns [of s] read_damaged [of s] read_shape_failure [of s parsed]
  by blast

theorem readPatientData_fallback_witness:
  "damaged (data_file damaged_store) \<and>
   snd (readPatientData damaged_store) = Inr saved_doc \<and>
   dir_ready shape_failing_store \<and>
   snd (readPatientData shape_failing_store) = Inr DEFAULT_STATE"
proof -
  have d: "damaged (data_file damaged_store)"
    by (simp add: damaged_store_def damaged_def)
  have b: "backup_or_default (backup_file damaged_store) = saved_doc"
    by (simp add: damaged_store_def backup_or_default_def)
  have r: "dir_ready shape_failing_store"
    and f: "data_file shape_failing_store = File (Serialized shapeless_doc)"
    by (simp_all add: shape_failing_store_def dir_ready_def)
  have n: "\<not> shape_ok shapeless_doc"
    by (simp add: shapeless_doc_def shape_ok_def js_def)
  from readPatientData_fallback [of damaged_store] d b
  have "snd (readPatientData damaged_store) = Inr saved_doc" by simp
  moreover from readPatientData_fallback [of shape_failing_store shapeless_doc] r f n
  have "snd (readPatientData shape_failing_store) = Inr DEFAULT_STATE" by simp
  ultimately show ?thesis using d r by simp
qed

text \<open>
  C4, as stated, fails: the primary document of this store parses and fails the shape
  check, its backup is a well-shaped document, and \<^verbatim>\<open>readPatientData\<close> returns the
  default document, not the backup.
\<close>

theorem readPatientData_shape_failure_skips_backup:
  "data_file shape_failing_store = File (Serialized shapeless_doc) \<and>
   \<not> shape_ok shapeless_doc \<and>
   backup_file shape_failing_store = File (Serialized saved_doc) \<and>
   shape_ok saved_doc \<and>
   snd (readPatientData shape_failing_store) = Inr DEFAULT_STATE \<and>
   DEFAULT_STATE \<noteq> saved_doc"
  by (simp add: store_defs shape_failing_store_def shapeless_doc_def saved_doc_def
      shape_ok_def DEFAULT_STATE_def js_def)

lemma shape_ok_as_written: "shape_ok (as_written doc) = shape_ok doc"
proof (cases doc)
  case (JNum n)
  then show ?thesis by (cases n) (simp_all add: shape_ok_def)
next
  case (JObj kvs)
  then show ?thesis by (simp add: shape_ok_def comp_def)
qed (simp_all add: shape_ok_def)

lemma written_number_plain: "written_number n = JNum n \<longleftrightarrow> plain_number n"
  by (cases n) simp_all

lemma as_written_plain: "as_written doc = doc \<longleftrightarrow> plain doc"
proof (induction doc)
  case (JNum n)
  show ?case by (simp add: written_number_plain)
next
  case (JArr vs)
  have "map as_written vs = vs \<longleftrightarrow> (\<forall>v\<in>set vs. as_written v = v)"
    using map_eq_conv [of as_written vs id] by simp
  with JArr show ?case by (simp add: list_all_iff)
next
  case (JObj kvs)
  have "map (map_prod id as_written) kvs = kvs \<longleftrightarrow>
      (\<forall>kv\<in>set kvs. map_prod id as_written kv = kv)"
    using map_eq_conv [of "map_prod id as_written" kvs id] by simp
  also have "\<dots> \<longleftrightarrow> (\<forall>kv\<in>set kvs. as_written (snd kv) = snd kv)"
    by (auto simp: map_prod_def split: prod.splits)
  also have "\<dots> \<longleftrightarrow> (\<forall>kv\<in>set kvs. plain (snd kv))"
    using JObj by (auto simp: snds.simps)
  finally show ?case by (simp add: list_all_iff)
qed simp_all

lemma write_then_read_shaped:
  "dir_ready s \<Longrightarrow> data_writable s \<Longrightarrow> data_file s \<noteq> Unreadable \<Longrightarrow> shape_ok doc \<Longrightarrow>
   \<exists>s'. writePatientData s doc = Inr s' \<and> snd (readPatientData s') = Inr (as_written doc)"
  unfolding store_defs dir_ready_def Let_def
  by (auto simp: shape_ok_as_written split: path_state.splits content.splits sum.splits)

lemma first_write:
  "dir_ready s \<Longrightarrow> data_writable s \<Longrightarrow> data_file s \<noteq> Unreadable \<Longrightarrow>
   backup_file s \<noteq> Unreadable \<Longrightarrow>
   \<exists>s'. writePatientData s doc = Inr s' \<and> data_file s' = File (Serialized (as_written doc)) \<and>
     dir_exists s' \<and> data_writable s' \<and> backup_writable s' = backup_writable s \<and>
     backup_file s' \<noteq> Unreadable"
  unfolding store_defs dir_ready_def Let_def
  by (auto split: path_state.splits content.splits sum.splits)

lemma second_write:
  "dir_exists s \<Longrightarrow> data_writable s \<Longrightarrow> backup_writable s \<Longrightarrow> data_file s = File t \<Longrightarrow>
   backup_file s \<noteq> Unreadable \<Longrightarrow>
   \<exists>s'. writePatientData s doc = Inr s' \<and> backup_file s' = File t"
  unfolding store_defs Let_def
  by (auto split: path_state.splits content.splits sum.splits)

lemma two_writes_then_backup_read:
  assumes "dir_ready s" "data_writable s" "data_file s \<noteq> Unreadable"
    "backup_writable s" "backup_file s \<noteq> Unreadable" "damaged bad"
  shows "\<exists>s1 s2. writePatientData s doc1 = Inr s1 \<and> writePatientData s1 doc2 = Inr s2 \<and>
     snd (readPatientData (s2\<lparr>data_file := bad\<rparr>)) = Inr (as_written doc1)"
proof -
  from first_write [OF assms(1,2,3,5), of doc1] obtain s1 where
    w1: "writePatientData s doc1 = Inr s1"
    and f1: "data_file s1 = File (Serialized (as_written doc1))"
    and k1: "dir_exists s1" "data_writable s1" "backup_writable s1"
    and u1: "backup_file s1 \<noteq> Unreadable"
    using assms(4) by auto
  from second_write [OF k1 f1 u1, of doc2] obtain s2 where
    w2: "writePatientData s1 doc2 = Inr s2"
    and b2: "backup_file s2 = File (Serialized (as_written doc1))"
    by auto
  have "snd (readPatientData (s2\<lparr>data_file := bad\<rparr>)) = Inr (as_written doc1)"
    using read_damaged [of "s2\<lparr>data_file := bad\<rparr>"] assms(6) b2
    by (simp add: backup_or_default_def)
  with w1 w2 show ?thesis by blast
qed

text \<open>
  C5, as amended. Take a store whose directory is there or can be made, whose primary
  file can be written and, when it is there, read. A document that passes the shape
  check is read back as \<^verbatim>\<open>JSON.stringify\<close> wrote it; that is the document itself
  exactly when it holds no number but finite ones other than the negative zero. When
  the same holds of the backup file, then after two writes in a row a read that finds
  the primary file unreadable or unparsable returns the first document, as it was
  written.
\<close>

theorem write_read_round_trip:
  "(dir_ready s \<and> data_writable s \<and> data_file s \<noteq> Unreadable \<and> shape_ok doc \<longrightarrow>
      (\<exists>s'. writePatientData s doc = Inr s' \<and>
         snd (readPatientData s') = Inr (as_written doc))) \<and>
   (as_written doc = doc \<longleftrightarrow> plain doc) \<and>
   (as_written doc1 = doc1 \<longleftrightarrow> plain doc1) \<and>
   (dir_ready s \<and> data_writable s \<and> data_file s \<noteq> Unreadable \<and>
    backup_writable s \<and> backup_file s \<noteq> Unreadable \<and> damaged bad \<longrightarrow>
      (\<exists>s1 s2. writePatientData s doc1 = Inr s1 \<and> writePatientData s1 doc2 = Inr s2 \<and>
         snd (readPatientData (s2\<lparr>data_file := bad\<rparr>)) = Inr (as_written doc1)))"
  using write_then_read_shaped [of s doc] two_writes_then_backup_read [of s bad doc1 doc2]
    as_written_plain [of doc] as_written_plain [of doc1]
  by blast

theorem write_read_round_trip_witness:
  "shape_ok later_doc \<and> plain later_doc \<and> plain saved_doc \<and> damaged Unreadable \<and>
   (\<exists>s'. writePatientData empty_store later_doc = Inr s' \<and>
      snd (readPatientData s') = Inr later_doc) \<and>
   (\<exists>s1 s2. writePatientData empty_store saved_doc = Inr s1 \<and>
      writePatientData s1 later_doc = Inr s2 \<and>
      snd (readPatientData (s2\<lparr>data_file := Unreadable\<rparr>)) = Inr saved_doc)"
proof -
  have r: "dir_ready empty_store" "data_writable empty_store" "backup_writable empty_store"
    "data_file empty_store \<noteq> Unreadable" "backup_file empty_store \<noteq> Unreadable"
    by (simp_all add: empty_store_def dir_ready_def)
  have k: "shape_ok later_doc" by (simp add: later_doc_def shape_ok_def)
  have p: "plain later_doc" "plain saved_doc" by (simp_all add: later_doc_def saved_doc_def)
  have d: "damaged Unreadable" by (simp add: damaged_def)
  from write_read_round_trip
    [where s = empty_store and doc = later_doc and ?doc1.0 = saved_doc and bad = Unreadable
       and ?doc2.0 = later_doc] r k p d
  have a: "\<exists>s'. writePatientData empty_store later_doc = Inr s' \<and>
      snd (readPatientData s') = Inr (as_written later_doc)"
    and b: "as_written later_doc = later_doc"
    and c: "as_written saved_doc = saved_doc"
    and e: "\<exists>s1 s2. writePatientData empty_store saved_doc = Inr s1 \<and>
      writePatientData s1 later_doc = Inr s2 \<and>
      snd (readPatientData (s2\<lparr>data_file := Unreadable\<rparr>)) = Inr (as_written saved_doc)"
    by blast+
  from a [unfolded b] e [unfolded c] k p d show ?thesis by simp
qed

text \<open>
  C5, as stated, fails: a document without the key \<^verbatim>\<open>dailyAssessments\<close> is written
  as it is and read back as the default document.
\<close>

theorem write_read_shapeless_document:
  "writePatientData empty_store shapeless_doc =
     Inr (empty_store\<lparr>dir_exists := True, data_file := File (Serialized shapeless_doc)\<rparr>) \<and>
   snd (readPatientData
     (empty_store\<lparr>dir_exists := True, data_file := File (Serialized shapeless_doc)\<rparr>)) =
     Inr DEFAULT_STATE \<and>
   DEFAULT_STATE \<noteq> shapeless_doc"
  by (simp add: store_defs empty_store_def shapeless_doc_def shape_ok_def DEFAULT_STATE_def
      js_def)

text \<open>
  A document that passes the shape check and holds an infinite number, as the body
  \<^verbatim>\<open>{"dailyAssessments": {}, "x": 1e400}\<close> of a request parses to, is written with
  \<^verbatim>\<open>null\<close> in the place of the number and read back so.
\<close>

theorem write_read_overflowing_document:
  "shape_ok overflowing_doc \<and>
   writePatientData empty_store overflowing_doc =
     Inr (empty_store\<lparr>dir_exists := True, data_file := File (Serialized
       (JObj [(js ''dailyAssessments'', JObj []), (js ''x'', JNull)]))\<rparr>) \<and>
   snd (readPatientData
     (empty_store\<lparr>dir_exists := True, data_file := File (Serialized
       (JObj [(js ''dailyAssessments'', JObj []), (js ''x'', JNull)]))\<rparr>)) =
     Inr (JObj [(js ''dailyAssessments'', JObj []), (js ''x'', JNull)]) \<and>
   JObj [(js ''dailyAssessments'', JObj []), (js ''x'', JNull)] \<noteq> overflowing_doc"
  by (simp add: store_defs empty_store_def overflowing_doc_def shape_ok_def js_def)

section \<open>Properties of the aggregation\<close>

subsection \<open>The accumulation\<close>

lemma forEach_append:
  "forEach f (xs @ ys) s = (case forEach f xs s of Inl e \<Rightarrow> Inl e | Inr s' \<Rightarrow> forEach f ys s')"
  by (induction xs arbitrary: s) (auto split: sum.splits)

lemma forEach_map: "forEach f (map g xs) s = forEach (\<lambda>x. f (g x)) xs s"
  by (induction xs arbitrary: s) (auto split: sum.splits)

lemma forEach_occurrences:
  "forEach add_medication ms amap = forEach add_occurrence (occurrences ms) amap"
proof (induction ms arbitrary: amap)
  case Nil
  show ?case by (simp add: occurrences_def)
next
  case (Cons m ms)
  have one: "add_medication m amap = forEach add_occurrence (map (Pair (name m)) (effects m)) amap"
    by (simp add: add_medication_def forEach_map add_occurrence_def)
  have "occurrences (m # ms) = map (Pair (name m)) (effects m) @ occurrences ms"
    by (simp add: occurrences_def)
  then show ?case
    using Cons.IH by (simp add: forEach_append one split: sum.splits)
qed

lemma map_of_set_property:
  "map_of (set_property kvs k v) = (map_of kvs)(k \<mapsto> v)"
  by (induction kvs) auto

lemma set_property_keys:
  "k \<in> set (map fst kvs) \<Longrightarrow> map fst (set_property kvs k v) = map fst kvs"
proof (induction kvs)
  case Nil
  then show ?case by simp
next
  case (Cons p kvs)
  show ?case
  proof (cases "fst p = k")
    case True
    then show ?thesis by (cases p) simp
  next
    case False
    with Cons.prems have "k \<in> set (map fst kvs)" by auto
    with Cons.IH False show ?thesis by (cases p) simp
  qed
qed

lemma map_of_Some_key: "map_of kvs k = Some v \<Longrightarrow> k \<in> set (map fst kvs)"
  by (induction kvs) (auto split: if_splits)

lemma map_of_None_key: "map_of kvs k = None \<Longrightarrow> k \<notin> set (map fst kvs)"
  by (induction kvs) (auto split: if_splits)

text \<open>One step of the accumulation, read through the lookup of a name.\<close>

lemma add_effect_lookup:
  assumes "add_effect mn se amap = Inr amap'"
  shows "map_of amap' n =
     (if effect_name se = n \<and> usable n
      then Some (record_occurrence mn (effect_desc se)
             (case map_of amap n of
                Some e \<Rightarrow> e
              | None \<Rightarrow> \<lparr>meds = [], count = 0, description = effect_desc se\<rparr>))
      else map_of amap n)"
  using assms
  unfolding add_effect_def get_property_def usable_def Let_def
  by (auto simp: map_of_set_property map_add_def split: if_splits option.splits)

lemma add_effect_keys:
  assumes "add_effect mn se amap = Inr amap'" and "distinct (map fst amap)"
  shows "distinct (map fst amap') \<and>
     set (map fst amap') =
       set (map fst amap) \<union> (if usable (effect_name se) then {effect_name se} else {})"
proof (cases "usable (effect_name se)")
  case False
  then have "amap' = amap"
    using assms(1) unfolding add_effect_def usable_def Let_def by (auto split: if_splits)
  with False assms(2) show ?thesis by simp
next
  case True
  show ?thesis
  proof (cases "map_of amap (effect_name se)")
    case None
    then have "amap' = amap @ [(effect_name se, record_occurrence mn (effect_desc se)
        \<lparr>meds = [], count = 0, description = effect_desc se\<rparr>)]"
      using assms(1) True unfolding add_effect_def usable_def get_property_def Let_def
      by (auto split: if_splits)
    with None True assms(2) show ?thesis
      using map_of_None_key [OF None] by auto
  next
    case (Some e)
    then have "amap' = set_property amap (effect_name se) (record_occurrence mn (effect_desc se) e)"
      using assms(1) True unfolding add_effect_def usable_def get_property_def Let_def
      by (auto split: if_splits)
    with True assms(2) show ?thesis
      using map_of_Some_key [OF Some] by (auto simp: set_property_keys)
  qed
qed


lemma record_occurrence_count [simp]: "count (record_occurrence mn d e) = count e + 1"
  by (simp add: record_occurrence_def Let_def)

lemma record_occurrence_meds [simp]: "meds (record_occurrence mn d e) = meds e @ [mn]"
  by (simp add: record_occurrence_def Let_def)

lemma forEach_Cons_Inr:
  "forEach f (x # xs) s = Inr s' \<Longrightarrow> \<exists>s1. f x s = Inr s1 \<and> forEach f xs s1 = Inr s'"
  by (auto split: sum.splits)

lemma forEach_lookup:
  assumes "forEach add_occurrence occs amap = Inr amap'" and "usable n"
    and "map_of amap' n = Some e'"
  shows "count e' = (case map_of amap n of Some e \<Rightarrow> count e | None \<Rightarrow> 0)
                     + int (length (hits n occs))
       \<and> meds e' = (case map_of amap n of Some e \<Rightarrow> meds e | None \<Rightarrow> [])
                     @ map fst (hits n occs)"
  using assms
proof (induction occs arbitrary: amap)
  case Nil
  then show ?case by (simp add: hits_def)
next
  case (Cons p occs)
  from forEach_Cons_Inr [OF Cons.prems(1)] obtain a1 where
    step0: "add_occurrence p amap = Inr a1" and rest: "forEach add_occurrence occs a1 = Inr amap'"
    by blast
  from step0 have step: "add_effect (fst p) (snd p) amap = Inr a1"
    by (simp add: add_occurrence_def)
  note ih = Cons.IH [OF rest Cons.prems(2) Cons.prems(3)]
  note look = add_effect_lookup [OF step, of n]
  show ?case
  proof (cases "effect_name (snd p) = n")
    case True
    with look Cons.prems(2) ih show ?thesis
      by (auto simp: hits_def split: option.splits)
  next
    case False
    with look ih show ?thesis
      by (auto simp: hits_def split: option.splits)
  qed
qed

lemma forEach_keys:
  assumes "forEach add_occurrence occs amap = Inr amap'" and "distinct (map fst amap)"
  shows "distinct (map fst amap') \<and>
     set (map fst amap') =
       set (map fst amap) \<union> set (filter usable (map (\<lambda>p. effect_name (snd p)) occs))"
  using assms
proof (induction occs arbitrary: amap)
  case Nil
  then show ?case by simp
next
  case (Cons p occs)
  from forEach_Cons_Inr [OF Cons.prems(1)] obtain a1 where
    step0: "add_occurrence p amap = Inr a1" and rest: "forEach add_occurrence occs a1 = Inr amap'"
    by blast
  from step0 have step: "add_effect (fst p) (snd p) amap = Inr a1"
    by (simp add: add_occurrence_def)
  note k1 = add_effect_keys [OF step Cons.prems(2)]
  note ih = Cons.IH [OF rest conjunct1 [OF k1]]
  show ?case using ih k1 by auto
qed

lemma set_insert_by [simp]: "set (insert_by cmp x ys) = insert x (set ys)"
  by (induction ys) auto

lemma length_insert_by [simp]: "length (insert_by cmp x ys) = Suc (length ys)"
  by (induction ys) auto

lemma set_array_sort [simp]: "set (array_sort cmp xs) = set xs"
  unfolding array_sort_def by (induction xs) auto

lemma length_array_sort [simp]: "length (array_sort cmp xs) = length xs"
  unfolding array_sort_def by (induction xs) auto

lemma set_object_entries [simp]: "set (object_entries obj) = set obj"
  unfolding object_entries_def by auto

lemma length_object_entries [simp]: "length (object_entries obj) = length obj"
  unfolding object_entries_def by (simp add: sum_length_filter_compl)

lemma distinct_keys_rearranged:
  assumes "distinct (map fst xs)" and "set ys = set xs" and "length ys = length xs"
  shows "distinct (map fst ys)"
proof -
  have "card (set (map fst ys)) = card (set (map fst xs))"
    using assms(2) by simp
  also have "\<dots> = length (map fst xs)"
    using assms(1) by (rule distinct_card)
  finally have "card (set (map fst ys)) = length (map fst ys)"
    using assms(3) by simp
  then show ?thesis by (rule card_distinct)
qed

lemma distinct_keys_lookup:
  "distinct (map fst xs) \<Longrightarrow> (k, v) \<in> set xs \<Longrightarrow> map_of xs k = Some v"
  by simp

lemma distinct_keys_once:
  "distinct (map fst xs) \<Longrightarrow> (k, v) \<in> set xs \<Longrightarrow> filter (\<lambda>p. fst p = k) xs = [(k, v)]"
proof (induction xs)
  case Nil
  then show ?case by simp
next
  case (Cons p xs)
  show ?case
  proof (cases "p = (k, v)")
    case True
    with Cons.prems(1) have "\<forall>q\<in>set xs. fst q \<noteq> k" by auto
    then have "filter (\<lambda>p. fst p = k) xs = []" by (simp add: filter_empty_conv)
    with True show ?thesis by simp
  next
    case False
    with Cons.prems have in_xs: "(k, v) \<in> set xs" by auto
    then have "k \<in> set (map fst xs)" by force
    with Cons.prems(1) have "fst p \<noteq> k" by auto
    with Cons.IH Cons.prems(1) in_xs show ?thesis by simp
  qed
qed

text \<open>What the accumulation holds when it ends: the facts about its result.\<close>

lemma allSideEffects_result:
  assumes "allSideEffects lc active = Inr out"
  obtains amap where "forEach add_occurrence (occurrences active) [] = Inr amap"
    and "set out = set amap" and "distinct (map fst amap)" and "distinct (map fst out)"
    and "set (map fst amap) = set (filter usable (map (\<lambda>p. effect_name (snd p)) (occurrences active)))"
proof -
  from assms obtain amap where run: "forEach add_medication active [] = Inr amap"
    and out: "out = array_sort (compare_entries lc) (object_entries amap)"
    unfolding allSideEffects_def by (auto split: sum.splits)
  have run': "forEach add_occurrence (occurrences active) [] = Inr amap"
    using run by (simp add: forEach_occurrences)
  from forEach_keys [OF run'] have d: "distinct (map fst amap)"
    and k: "set (map fst amap) = set (filter usable (map (\<lambda>p. effect_name (snd p)) (occurrences active)))"
    by simp_all
  have s: "set out = set amap" using out by simp
  have l: "length out = length amap" using out by simp
  have "distinct (map fst out)" using d s l by (rule distinct_keys_rearranged)
  with run' s d k show ?thesis by (intro that)
qed

lemma allSideEffects_entry:
  assumes "allSideEffects lc active = Inr out" and "(n, e) \<in> set out"
  shows "usable n \<and> count e = int (length (hits n (occurrences active)))
       \<and> meds e = map fst (hits n (occurrences active))
       \<and> filter (\<lambda>p. fst p = n) out = [(n, e)]"
proof -
  from assms(1) obtain amap where run: "forEach add_occurrence (occurrences active) [] = Inr amap"
    and s: "set out = set amap" and d: "distinct (map fst amap)" and d': "distinct (map fst out)"
    and k: "set (map fst amap) = set (filter usable (map (\<lambda>p. effect_name (snd p)) (occurrences active)))"
    by (rule allSideEffects_result)
  from assms(2) s have mem: "(n, e) \<in> set amap" by simp
  then have "n \<in> set (map fst amap)" by force
  with k have u: "usable n" by auto
  from d mem have "map_of amap n = Some e" by simp
  from forEach_lookup [OF run u this] have "count e = int (length (hits n (occurrences active)))"
    and "meds e = map fst (hits n (occurrences active))" by simp_all
  moreover from d' assms(2) have "filter (\<lambda>p. fst p = n) out = [(n, e)]"
    by (rule distinct_keys_once)
  ultimately show ?thesis using u by simp
qed

subsection \<open>The order of the view\<close>

lemma compare_entries_total:
  "consistent_comparator lc \<Longrightarrow> compare_entries lc a b \<le> 0 \<or> compare_entries lc b a \<le> 0"
  unfolding consistent_comparator_def compare_entries_def by auto

lemma compare_entries_trans:
  "consistent_comparator lc \<Longrightarrow> compare_entries lc a b \<le> 0 \<Longrightarrow> compare_entries lc b c \<le> 0 \<Longrightarrow>
   compare_entries lc a c \<le> 0"
  unfolding consistent_comparator_def compare_entries_def
  by (auto split: if_splits)

lemma sorted_insert_by:
  assumes tot: "\<And>a b. cmp a b \<le> 0 \<or> cmp b a \<le> 0"
    and tr: "\<And>a b c. cmp a b \<le> 0 \<Longrightarrow> cmp b c \<le> 0 \<Longrightarrow> cmp a c \<le> 0"
  shows "sorted_wrt (\<lambda>a b. cmp a b \<le> 0) ys \<Longrightarrow> sorted_wrt (\<lambda>a b. cmp a b \<le> (0::int)) (insert_by cmp x ys)"
proof (induction ys)
  case Nil
  then show ?case by simp
next
  case (Cons y ys)
  show ?case
  proof (cases "cmp x y \<le> 0")
    case True
    with Cons.prems tr show ?thesis by auto
  next
    case False
    with tot have "cmp y x \<le> 0" by blast
    with False Cons show ?thesis by auto
  qed
qed

lemma sorted_array_sort:
  assumes tot: "\<And>a b. cmp a b \<le> 0 \<or> cmp b a \<le> 0"
    and tr: "\<And>a b c. cmp a b \<le> 0 \<Longrightarrow> cmp b c \<le> 0 \<Longrightarrow> cmp a c \<le> 0"
  shows "sorted_wrt (\<lambda>a b. cmp a b \<le> (0::int)) (array_sort cmp xs)"
  unfolding array_sort_def
  by (induction xs) (simp_all add: sorted_insert_by [OF tot tr])


lemma consistent_english_localeCompare: "consistent_comparator english_localeCompare"
  unfolding consistent_comparator_def english_localeCompare_def
  by (auto split: if_splits)

lemmas aggregation_defs =
  allSideEffects_def add_medication_def add_effect_def effects_def get_property_def
  object_prototype_keys_def record_occurrence_def effect_name_def effect_desc_def
  object_entries_def is_array_index_def array_sort_def compare_entries_def
  english_localeCompare_def fold_case_def activeMeds_def js_def Let_def

lemma example_run:
  "allSideEffects english_localeCompare (activeMeds [sertraline, ibuprofen, aspirin] reference_date) =
     Inr example_view"
  by (simp add: aggregation_defs sertraline_def ibuprofen_def aspirin_def reference_date_def
      example_view_def)

text \<open>
  C8. With a consistent \<^verbatim>\<open>localeCompare\<close>, of any two pairs of the view the earlier
  one has the count that is not smaller, and when the counts are equal the name of the
  earlier one does not come after the name of the later one in the collation.
\<close>

theorem allSideEffects_sorted:
  assumes "consistent_comparator localeCompare"
    and "allSideEffects localeCompare (activeMeds all_medications selectedDate) = Inr out"
    and "i < j" and "j < length out"
  shows "count (snd (out ! j)) \<le> count (snd (out ! i)) \<and>
     (count (snd (out ! i)) = count (snd (out ! j)) \<longrightarrow>
        localeCompare (fst (out ! i)) (fst (out ! j)) \<le> 0)"
proof -
  from assms(2) obtain amap where
    out: "out = array_sort (compare_entries localeCompare) (object_entries amap)"
    unfolding allSideEffects_def by (auto split: sum.splits)
  have tot: "compare_entries localeCompare a b \<le> 0 \<or> compare_entries localeCompare b a \<le> 0"
    for a b using assms(1) by (rule compare_entries_total)
  have tr: "compare_entries localeCompare a c \<le> 0"
    if "compare_entries localeCompare a b \<le> 0" and "compare_entries localeCompare b c \<le> 0"
    for a b c using assms(1) that by (rule compare_entries_trans)
  have "sorted_wrt (\<lambda>a b. compare_entries localeCompare a b \<le> 0) out"
    unfolding out using tot tr by (rule sorted_array_sort)
  with assms(3,4) have "compare_entries localeCompare (out ! i) (out ! j) \<le> 0"
    by (simp add: sorted_wrt_iff_nth_less)
  then show ?thesis
    unfolding compare_entries_def by (auto split: if_splits)
qed


theorem allSideEffects_sorted_witness:
  "consistent_comparator english_localeCompare \<and>
   allSideEffects english_localeCompare (activeMeds [sertraline, ibuprofen, aspirin] reference_date) =
     Inr example_view \<and>
   count (snd (example_view ! 1)) \<le> count (snd (example_view ! 0)) \<and>
   count (snd (example_view ! 1)) = count (snd (example_view ! 2)) \<and>
   english_localeCompare (fst (example_view ! 1)) (fst (example_view ! 2)) \<le> 0"
proof -
  have len: "length example_view = 3" by (simp add: example_view_def)
  have eq: "count (snd (example_view ! 1)) = count (snd (example_view ! 2))"
    by (simp add: example_view_def)
  from allSideEffects_sorted [OF consistent_english_localeCompare example_run, of 0 1] len
  have "count (snd (example_view ! 1)) \<le> count (snd (example_view ! 0))" by simp
  moreover from allSideEffects_sorted [OF consistent_english_localeCompare example_run, of 1 2] len eq
  have "english_localeCompare (fst (example_view ! 1)) (fst (example_view ! 2)) \<le> 0" by simp
  ultimately show ?thesis
    using consistent_english_localeCompare example_run eq by simp
qed

subsection \<open>When the aggregation returns\<close>




subsection \<open>One entry for a name\<close>








text \<open>
  A listed name of \<^verbatim>\<open>Object.prototype\<close> makes the aggregation throw.
\<close>

theorem prototype_name_throws:
  "allSideEffects english_localeCompare (activeMeds [sertraline, odd_name] reference_date) =
     Inl TypeError"
  by (simp add: aggregation_defs sertraline_def odd_name_def reference_date_def)

subsection \<open>The count of an entry\<close>

lemma length_hits_occurrences:
  "length (hits n (occurrences ms)) =
     length (filter (\<lambda>x. x = n) (concat (map (\<lambda>m. map effect_name (effects m)) ms)))"
proof (induction ms)
  case Nil
  show ?case by (simp add: hits_def occurrences_def)
next
  case (Cons m ms)
  have "length (filter (\<lambda>p. effect_name (snd p) = n) (map (Pair (name m)) es)) =
      length (filter (\<lambda>x. x = n) (map effect_name es))" for es
    by (induction es) auto
  with Cons show ?case by (simp add: hits_def occurrences_def)
qed

lemma filter_usable_name:
  "usable n \<Longrightarrow> filter (\<lambda>x. usable x \<and> x = n) xs = filter (\<lambda>x. x = n) xs"
  by (rule filter_cong) auto

lemma length_hits_listed:
  assumes "usable n"
  shows "length (hits n (occurrences ms)) =
     length (filter (\<lambda>x. x = n) (concat (map listed_names ms)))"
proof -
  have "filter (\<lambda>x. x = n) (concat (map listed_names ms)) =
      filter (\<lambda>x. x = n) (concat (map (\<lambda>m. map effect_name (effects m)) ms))"
    using assms by (induction ms) (simp_all add: listed_names_def filter_usable_name)
  then show ?thesis by (simp add: length_hits_occurrences)
qed

lemma distinct_count_once:
  "distinct xs \<Longrightarrow> length (filter (\<lambda>x. x = n) xs) = (if n \<in> set xs then 1 else 0)"
  by (induction xs) auto

lemma count_in_distinct_lists:
  "list_all distinct xss \<Longrightarrow>
   length (filter (\<lambda>x. x = n) (concat xss)) = length (filter (\<lambda>xs. n \<in> set xs) xss)"
  by (induction xss) (simp_all add: distinct_count_once)

text \<open>
  The count of an entry is the number of side-effect records of the active medications
  that carry its name; it is the number of active medications that list the name when
  no active medication lists a name twice.
\<close>

theorem allSideEffects_count:
  assumes "allSideEffects localeCompare (activeMeds all_medications selectedDate) = Inr out"
    and "(n, e) \<in> set out"
  shows "count e = int (length (filter (\<lambda>x. x = n)
            (concat (map listed_names (activeMeds all_medications selectedDate))))) \<and>
     (list_all (\<lambda>m. distinct (listed_names m)) (activeMeds all_medications selectedDate) \<longrightarrow>
        count e = int (length (filter (\<lambda>m. n \<in> set (listed_names m))
                                 (activeMeds all_medications selectedDate))))"
proof -
  let ?active = "activeMeds all_medications selectedDate"
  from allSideEffects_entry [OF assms]
  have u: "usable n" and c: "count e = int (length (hits n (occurrences ?active)))"
    by simp_all
  have c': "count e = int (length (filter (\<lambda>x. x = n) (concat (map listed_names ?active))))"
    using c length_hits_listed [OF u] by simp
  have "length (filter (\<lambda>x. x = n) (concat (map listed_names ?active))) =
      length (filter (\<lambda>m. n \<in> set (listed_names m)) ?active)"
    if "list_all (\<lambda>m. distinct (listed_names m)) ?active"
  proof -
    from that have "list_all distinct (map listed_names ?active)"
      by (simp add: list_all_iff)
    from count_in_distinct_lists [OF this, of n] show ?thesis
      by (simp add: filter_map o_def)
  qed
  with c' show ?thesis by simp
qed

theorem allSideEffects_count_witness:
  "(js ''Nausea'', \<lparr>meds = [js ''Sertraline'', js ''Ibuprofen''], count = 2,
                     description = js ''A queasy feeling.''\<rparr>) \<in> set example_view \<and>
   list_all (\<lambda>m. distinct (listed_names m))
     (activeMeds [sertraline, ibuprofen, aspirin] reference_date) \<and>
   length (filter (\<lambda>m. js ''Nausea'' \<in> set (listed_names m))
     (activeMeds [sertraline, ibuprofen, aspirin] reference_date)) = 2"
proof -
  let ?e = "\<lparr>meds = [js ''Sertraline'', js ''Ibuprofen''], count = 2,
             description = js ''A queasy feeling.''\<rparr>"
  have m: "(js ''Nausea'', ?e) \<in> set example_view"
    by (simp add: example_view_def)
  have d: "list_all (\<lambda>m. distinct (listed_names m))
      (activeMeds [sertraline, ibuprofen, aspirin] reference_date)"
    by (simp add: activeMeds_def sertraline_def ibuprofen_def aspirin_def reference_date_def
        listed_names_def effects_def effect_name_def usable_def js_def)
  from allSideEffects_count [OF example_run m] d
  have "int (length (filter (\<lambda>m. js ''Nausea'' \<in> set (listed_names m))
      (activeMeds [sertraline, ibuprofen, aspirin] reference_date))) = 2"
    by simp
  with m d show ?thesis by simp
qed

text \<open>
  C1, at the input where it fails. One active medication lists the name
  \<^verbatim>\<open>Nausea\<close> in two records: the entry counts 2 and names the medication twice,
  while one medication lists the name.
\<close>

theorem allSideEffects_counts_repeated_listing:
  "allSideEffects english_localeCompare (activeMeds [repeating] reference_date) =
     Inr [(js ''Nausea'', \<lparr>meds = [js ''Sertraline'', js ''Sertraline''], count = 2,
                            description = []\<rparr>)] \<and>
   length (filter (\<lambda>m. js ''Nausea'' \<in> set (listed_names m))
     (activeMeds [repeating] reference_date)) = 1"
  by (simp add: aggregation_defs repeating_def reference_date_def listed_names_def usable_def)

section \<open>Properties of the resolver\<close>

lemma js_inject [simp]: "js a = js b \<longleftrightarrow> a = b"
  unfolding js_def by (simp add: inj_map_eq_map inj_on_def)

lemma map_of_js_keys:
  "map_of (map (\<lambda>(k, v). (js k, f v)) tbl) (js key) = map_option f (map_of tbl key)"
  by (induction tbl) auto

lemmas string_defs =
  trim_def toLowerCase_def toUpperCase_def lower_unit_def upper_unit_def is_space_def js_def

lemmas simplify_defs =
  simplify_name_def trim_def is_space_def match_token_def suffix_tokens_def canonicalize_def
  js_def

subsection \<open>The lookups of the examples\<close>

lemma latin1_examples:
  "latin1 (js '' Zoloft HCl '')" "latin1 (js ''Aspirin'')" "latin1 (js ''sertraline'')"
  "latin1 (js ''Sertraline'')" "latin1 (js ''Zoloft HCl'')" "latin1 (js ''Xyzzyplex'')"
  "latin1 (js ''NAUSEA'')" "latin1 (js ''DEATH'')" "latin1 (js ''Drug Ineffective'')"
  by (simp_all add: latin1_def js_def)

lemma key_constructor: "trim (toLowerCase (js ''constructor'')) = js ''constructor''"
  by (simp add: string_defs)

lemma simplify_constructor: "simplify_name (js ''constructor'') = js ''constructor''"
  by (simp add: simplify_defs)

lemma constructor_not_a_key: "map_of FALLBACK_SIDE_EFFECTS (js ''constructor'') = None"
  unfolding FALLBACK_SIDE_EFFECTS_def map_of_js_keys by simp

lemma constructor_inherited: "js ''constructor'' \<in> set object_prototype_keys"
  unfolding object_prototype_keys_def by simp

lemma key_sertraline: "trim (toLowerCase (js ''Sertraline'')) = js ''sertraline''"
  by (simp add: string_defs)


lemma simplify_sertraline: "simplify_name (js ''sertraline'') = js ''straline''"
  by (simp add: simplify_defs)

lemma sertraline_is_a_key:
  "map_of FALLBACK_SIDE_EFFECTS (js ''sertraline'') = Some sertraline_terms"
  unfolding FALLBACK_SIDE_EFFECTS_def map_of_js_keys sertraline_terms_def by simp

lemma key_zoloft_hcl: "trim (toLowerCase (js ''Zoloft HCl'')) = js ''zoloft hcl''"
  by (simp add: string_defs)

lemma simplify_zoloft_hcl: "simplify_name (js ''Zoloft HCl'') = js ''Zoloft''"
  by (simp add: simplify_defs)

lemma key_zoloft: "trim (toLowerCase (js ''Zoloft'')) = js ''zoloft''"
  by (simp add: string_defs)

lemma zoloft_hcl_not_a_key: "map_of FALLBACK_SIDE_EFFECTS (js ''zoloft hcl'') = None"
  unfolding FALLBACK_SIDE_EFFECTS_def map_of_js_keys by simp

lemma zoloft_hcl_not_inherited: "js ''zoloft hcl'' \<notin> set object_prototype_keys"
  unfolding object_prototype_keys_def by simp

lemma zoloft_is_a_key: "map_of FALLBACK_SIDE_EFFECTS (js ''zoloft'') = Some sertraline_terms"
  unfolding FALLBACK_SIDE_EFFECTS_def map_of_js_keys sertraline_terms_def by simp

lemma key_xyzzyplex: "trim (toLowerCase (js ''Xyzzyplex'')) = js ''xyzzyplex''"
  by (simp add: string_defs)

lemma simplify_xyzzyplex: "simplify_name (js ''Xyzzyplex'') = js ''Xyzzyplex''"
  by (simp add: simplify_defs)

lemma xyzzyplex_not_a_key: "map_of FALLBACK_SIDE_EFFECTS (js ''xyzzyplex'') = None"
  unfolding FALLBACK_SIDE_EFFECTS_def map_of_js_keys by simp

lemma xyzzyplex_not_inherited: "js ''xyzzyplex'' \<notin> set object_prototype_keys"
  unfolding object_prototype_keys_def by simp

subsection \<open>The fallback tiers of the client\<close>

lemma buildFromFallback_cases:
  "buildFromFallback medName =
     (case map_of FALLBACK_SIDE_EFFECTS (trim (toLowerCase medName)) of
        Some terms \<Rightarrow> Inr (Some (table_records terms))
      | None \<Rightarrow>
          if trim (toLowerCase medName) \<in> set object_prototype_keys then Inl TypeError
          else Inr None)"
  unfolding buildFromFallback_def get_property_def Let_def
  by (simp split: option.splits)

text \<open>
  When the first three tiers fail, the resolver returns the normalized terms of the
  table entry of the lower-cased, trimmed name; without such an entry, those of the
  entry of the simplified name; and without either, the sentinel that quotes the name -
  provided a name without an entry is not a name of \<^verbatim>\<open>Object.prototype\<close>.
  The statement is made for the medication names over U+0000 to U+00FF.
\<close>

theorem fetchSideEffects_fallback:
  assumes "proxy_tier proxy medName = None"
    and "fetchSideEffectsFromFDA fda medName = Inl e1"
    and "retry_simplified fda medName (simplify_name medName) = Inl e2"
    and "latin1 medName"
  shows
    "(map_of FALLBACK_SIDE_EFFECTS (trim (toLowerCase medName)) = Some terms \<longrightarrow>
        fetchSideEffects proxy fda medName = Inr (table_records terms)) \<and>
     (map_of FALLBACK_SIDE_EFFECTS (trim (toLowerCase medName)) = None \<and>
      trim (toLowerCase medName) \<notin> set object_prototype_keys \<and>
      map_of FALLBACK_SIDE_EFFECTS (trim (toLowerCase (simplify_name medName))) = Some terms \<longrightarrow>
        fetchSideEffects proxy fda medName = Inr (table_records terms)) \<and>
     (map_of FALLBACK_SIDE_EFFECTS (trim (toLowerCase medName)) = None \<and>
      trim (toLowerCase medName) \<notin> set object_prototype_keys \<and>
      map_of FALLBACK_SIDE_EFFECTS (trim (toLowerCase (simplify_name medName))) = None \<and>
      trim (toLowerCase (simplify_name medName)) \<notin> set object_prototype_keys \<longrightarrow>
        fetchSideEffects proxy fda medName = Inr (not_found medName))"
  using assms
  by (simp add: fetchSideEffects_def fallback_tier_def buildFromFallback_cases Let_def)

lemma no_network:
  "proxy_tier no_proxy medName = None"
  "fetchSideEffectsFromFDA no_service medName = Inl IOError"
  "retry_simplified no_service medName simplified = Inl (if simplified \<noteq> medName then IOError else Failure)"
  by (simp_all add: proxy_tier_def no_proxy_def fetchSideEffectsFromFDA_def no_service_def
      retry_simplified_def)

theorem fetchSideEffects_fallback_witness:
  "fetchSideEffects no_proxy no_service (js ''Sertraline'') = Inr (table_records sertraline_terms) \<and>
   fetchSideEffects no_proxy no_service (js ''Zoloft HCl'') = Inr (table_records sertraline_terms) \<and>
   fetchSideEffects no_proxy no_service (js ''Xyzzyplex'') = Inr (not_found (js ''Xyzzyplex''))"
proof -
  from fetchSideEffects_fallback
    [OF no_network latin1_examples(4), where terms = sertraline_terms]
  have 1: "fetchSideEffects no_proxy no_service (js ''Sertraline'') = Inr (table_records sertraline_terms)"
    by (simp add: key_sertraline sertraline_is_a_key)
  from fetchSideEffects_fallback
    [OF no_network latin1_examples(5), where terms = sertraline_terms]
  have 2: "fetchSideEffects no_proxy no_service (js ''Zoloft HCl'') = Inr (table_records sertraline_terms)"
    by (simp add: key_zoloft_hcl zoloft_hcl_not_a_key zoloft_hcl_not_inherited
        simplify_zoloft_hcl key_zoloft zoloft_is_a_key)
  from fetchSideEffects_fallback [OF no_network latin1_examples(6)]
  have 3: "fetchSideEffects no_proxy no_service (js ''Xyzzyplex'') = Inr (not_found (js ''Xyzzyplex''))"
    by (simp add: key_xyzzyplex xyzzyplex_not_a_key xyzzyplex_not_inherited simplify_xyzzyplex)
  from 1 2 3 show ?thesis by simp
qed

text \<open>
  C3, at the input where it fails. The name \<^verbatim>\<open>constructor\<close> is no key of the
  fallback table, the proxy and the service are out of reach, and the resolver throws a
  TypeError where the claim has it return the sentinel.
\<close>

theorem fetchSideEffects_constructor_throws:
  "map_of FALLBACK_SIDE_EFFECTS (trim (toLowerCase (js ''constructor''))) = None \<and>
   simplify_name (js ''constructor'') = js ''constructor'' \<and>
   fetchSideEffects no_proxy no_service (js ''constructor'') = Inl TypeError"
  by (simp add: fetchSideEffects_def fallback_tier_def buildFromFallback_cases no_network
      key_constructor simplify_constructor constructor_not_a_key constructor_inherited)

subsection \<open>What the direct lookup keeps\<close>

lemma js_member [simp]: "js k \<in> set (map js ks) \<longleftrightarrow> k \<in> set ks"
  by (induction ks) auto

lemma title_nausea: "toTitleCase (js ''nausea'') = js ''Nausea''"
  by (simp add: toTitleCase_def toLowerCase_def toUpperCase_def lower_unit_def upper_unit_def
      is_space_def js_def)

lemma lower_nausea:
  "toLowerCase (js ''NAUSEA'') = js ''nausea''" "toLowerCase (js ''Nausea'') = js ''nausea''"
  by (simp_all add: string_defs)

text \<open>
  The direct lookup lower-cases the terms of the service and removes no repetition: a
  term reported in two letter cases gives two records of one name.
\<close>

theorem fda_records_repeat_a_term:
  "map se_name (fda_records DESCRIPTIONS [js ''NAUSEA'', js ''Nausea'']) =
     [js ''Nausea'', js ''Nausea'']"
  by (simp add: fda_records_def lower_nausea EXCLUDED_TERMS_def title_nausea)

text \<open>
  The direct lookup succeeds with the empty list when the service reports excluded terms
  only, and the resolver returns that empty list.
\<close>

theorem fetchSideEffects_returns_empty_list:
  "fetchSideEffects no_proxy excluded_only_service (js ''Aspirin'') = Inr []"
proof -
  have "toLowerCase (js ''DEATH'') = js ''death''"
    "toLowerCase (js ''Drug Ineffective'') = js ''drug ineffective''"
    by (simp_all add: string_defs)
  then have "fda_records DESCRIPTIONS [js ''DEATH'', js ''Drug Ineffective''] = []"
    by (simp add: fda_records_def EXCLUDED_TERMS_def)
  then show ?thesis
    by (simp add: fetchSideEffects_def no_network fetchSideEffectsFromFDA_def
        excluded_only_service_def)
qed

subsection \<open>The handler of POST /api/side-effects\<close>

lemma queryFDA_results:
  "fda (toUpperCase medName) = Results (r # rs) \<Longrightarrow>
   queryFDA fda medName = Inr (fda_records SERVER_DESCRIPTIONS (r # rs))"
  by (simp add: queryFDA_def)


lemma fda_records_empty:
  "fda_records descriptions results = [] \<longleftrightarrow>
     list_all (\<lambda>term. toLowerCase term \<in> set EXCLUDED_TERMS) results"
  by (simp add: fda_records_def filter_empty_conv list_all_iff)


lemma lookup_first:
  "fda (toUpperCase medName) = Results (r # rs) \<Longrightarrow>
   lookup_side_effects fda medName = Status200 (fda_records SERVER_DESCRIPTIONS (r # rs))"
  by (simp add: lookup_side_effects_def queryFDA_results)




lemma post_looks_up:
  "trim s \<noteq> [] \<Longrightarrow>
   post_side_effects fda (Some (JStr s)) = lookup_side_effects fda (trim s)"
  by (auto simp: post_side_effects_def trim_def)



lemma trim_aspirin: "trim (js ''Aspirin'') = js ''Aspirin''"
  by (simp add: string_defs)


lemma excluded_only:
  "list_all (\<lambda>term. toLowerCase term \<in> set EXCLUDED_TERMS)
     [js ''DEATH'', js ''Drug Ineffective'']"
proof -
  have "toLowerCase (js ''DEATH'') = js ''death''"
    "toLowerCase (js ''Drug Ineffective'') = js ''drug ineffective''"
    by (simp_all add: string_defs)
  then show ?thesis by (simp add: EXCLUDED_TERMS_def)
qed




text \<open>
  The server answers 200 with the empty list, and neither retries nor sends the
  sentinel, when the service reports excluded terms only.
\<close>

theorem post_side_effects_returns_empty_list:
  "excluded_only_service (toUpperCase (js ''Aspirin'')) =
     Results [js ''DEATH'', js ''Drug Ineffective''] \<and>
   toLowerCase (js ''DEATH'') \<in> set EXCLUDED_TERMS \<and>
   toLowerCase (js ''Drug Ineffective'') \<in> set EXCLUDED_TERMS \<and>
   post_side_effects excluded_only_service (Some (JStr (js ''Aspirin''))) = Status200 []"
proof -
  have x: "excluded_only_service product = Results [js ''DEATH'', js ''Drug Ineffective'']"
    for product by (simp add: excluded_only_service_def)
  have e: "fda_records SERVER_DESCRIPTIONS [js ''DEATH'', js ''Drug Ineffective''] = []"
    using excluded_only by (simp add: fda_records_empty)
  have n: "js ''Aspirin'' \<noteq> []" by (simp add: js_def)
  have "post_side_effects excluded_only_service (Some (JStr (js ''Aspirin''))) = Status200 []"
    using n by (simp add: post_looks_up trim_aspirin lookup_first x e)
  with x excluded_only show ?thesis by simp
qed

section \<open>Properties of the client's state\<close>

lemmas mutation_defs =
  update_def setSeverity_def setAssessment_def setJournal_def setNotes_def toggleTheme_def
  setMedications_def

text \<open>
  C10. Each mutation changes only its own field of the document. Setting a severity
  leaves the other dates as they were, and on the selected date the severities of the
  other effects; setting an assessment and writing the journal leave the other dates as
  they were.
\<close>

theorem mutations_frame:
  "setSeverity selectedDate effect val p =
     p\<lparr>sideEffectSeverities := sideEffectSeverities (setSeverity selectedDate effect val p)\<rparr> \<and>
   (d \<noteq> selectedDate \<longrightarrow>
      sideEffectSeverities (setSeverity selectedDate effect val p) d = sideEffectSeverities p d) \<and>
   (\<exists>day. sideEffectSeverities (setSeverity selectedDate effect val p) selectedDate = Some day \<and>
      day effect = Some val \<and>
      (other \<noteq> effect \<longrightarrow>
         day other = (case sideEffectSeverities p selectedDate of
                        Some before \<Rightarrow> before other | None \<Rightarrow> None))) \<and>
   setAssessment rendered selectedDate key score p =
     p\<lparr>dailyAssessments := dailyAssessments (setAssessment rendered selectedDate key score p)\<rparr> \<and>
   (d \<noteq> selectedDate \<longrightarrow>
      dailyAssessments (setAssessment rendered selectedDate key score p) d = dailyAssessments p d) \<and>
   setJournal selectedDate entry p =
     p\<lparr>journal := journal (setJournal selectedDate entry p)\<rparr> \<and>
   (d \<noteq> selectedDate \<longrightarrow> journal (setJournal selectedDate entry p) d = journal p d) \<and>
   setNotes entry p = p\<lparr>notes' := notes' (setNotes entry p)\<rparr> \<and>
   toggleTheme rendered p = p\<lparr>theme := theme (toggleTheme rendered p)\<rparr>"
  by (simp add: mutation_defs spread_or_empty_def split: option.splits)

theorem mutations_frame_witness:
  "js ''2024-02-02'' \<noteq> js ''2024-02-01'' \<and> js ''Headache'' \<noteq> js ''Nausea'' \<and>
   sideEffectSeverities
     (setSeverity (js ''2024-02-01'') (js ''Nausea'') 3 CLIENT_DEFAULT_STATE) (js ''2024-02-02'') = None \<and>
   notes' (setSeverity (js ''2024-02-01'') (js ''Nausea'') 3 CLIENT_DEFAULT_STATE) = [] \<and>
   theme (setNotes (js ''call the clinic'') CLIENT_DEFAULT_STATE) = js ''light''"
proof -
  let ?p = "CLIENT_DEFAULT_STATE"
  have n: "js ''2024-02-02'' \<noteq> js ''2024-02-01''" "js ''Headache'' \<noteq> js ''Nausea''"
    by simp_all
  note f = mutations_frame [where selectedDate = "js ''2024-02-01''" and effect = "js ''Nausea''"
      and val = 3 and p = ?p and d = "js ''2024-02-02''" and other = "js ''Headache''"
      and rendered = ?p and key = "js ''general''" and score = 7
      and entry = "js ''call the clinic''"]
  from f n have 1: "sideEffectSeverities (setSeverity (js ''2024-02-01'') (js ''Nausea'') 3 ?p)
      (js ''2024-02-02'') = sideEffectSeverities ?p (js ''2024-02-02'')"
    by blast
  from f have 2: "setSeverity (js ''2024-02-01'') (js ''Nausea'') 3 ?p =
      ?p\<lparr>sideEffectSeverities := sideEffectSeverities (setSeverity (js ''2024-02-01'') (js ''Nausea'') 3 ?p)\<rparr>"
    by blast
  from f have 3: "setNotes (js ''call the clinic'') ?p =
      ?p\<lparr>notes' := notes' (setNotes (js ''call the clinic'') ?p)\<rparr>"
    by blast
  have 4: "notes' (setSeverity (js ''2024-02-01'') (js ''Nausea'') 3 ?p) = notes' ?p"
    by (subst 2) simp
  have 5: "theme (setNotes (js ''call the clinic'') ?p) = theme ?p"
    by (subst 3) simp
  from 1 4 5 n show ?thesis by (simp add: CLIENT_DEFAULT_STATE_def)
qed

section \<open>Properties of the debounced auto-save\<close>

lemmas debounce_defs =
  commit_def elapse_def auto_save_effect_def clearTimeout_def setTimeout_def Let_def

lemma load_settles:
  "loaded (step mount (LoadDone data)) \<and> \<not> initialLoad (step mount (LoadDone data)) \<and>
   timers (step mount (LoadDone data)) = [] \<and> pushes (step mount (LoadDone data)) = [] \<and>
   state (step mount (LoadDone data)) = (case data of Some d \<Rightarrow> d | None \<Rightarrow> CLIENT_DEFAULT_STATE)"
  by (simp add: mount_def debounce_defs split: option.splits)

lemma quiet_without_timer:
  "timers c = [] \<Longrightarrow> pushes (step c (Elapse t)) = pushes c \<and> timers (step c (Elapse t)) = []"
  by (simp add: elapse_def Let_def)

lemma first_mutation_arms:
  assumes "loaded c" "\<not> initialLoad c" "timers c = []"
  shows "armed (step (step c (Elapse gap)) (Mutation fn))
     \<and> state (step (step c (Elapse gap)) (Mutation fn)) = fn (state c)
     \<and> pushes (step (step c (Elapse gap)) (Mutation fn)) = pushes c"
  using assms
  by (simp add: armed_def debounce_defs)

lemma next_mutation_rearms:
  assumes "armed c" "gap < 600"
  shows "armed (step (step c (Elapse gap)) (Mutation fn))
     \<and> state (step (step c (Elapse gap)) (Mutation fn)) = fn (state c)
     \<and> pushes (step (step c (Elapse gap)) (Mutation fn)) = pushes c"
  using assms
  by (auto simp add: armed_def debounce_defs)

lemma quiet_fires:
  assumes "armed c" "600 \<le> quiet"
  shows "pushes (step c (Elapse quiet)) = pushes c @ [state c] \<and> timers (step c (Elapse quiet)) = []"
  using assms
  by (auto simp add: armed_def elapse_def Let_def)

lemma run_append: "run c (xs @ ys) = run (run c xs) ys"
  by (simp add: run_def)

lemma run_Cons: "run c (x # xs) = run (step c x) xs"
  by (simp add: run_def)

lemma burst_Cons: "burst (m # ms) = Elapse (fst m) # Mutation (snd m) # burst ms"
  by (simp add: burst_def)

lemma armed_burst:
  assumes "armed c" "list_all (\<lambda>m. fst m < 600) ms"
  shows "armed (run c (burst ms))
     \<and> state (run c (burst ms)) = foldl (\<lambda>s m. snd m s) (state c) ms
     \<and> pushes (run c (burst ms)) = pushes c"
  using assms
proof (induction ms arbitrary: c)
  case Nil
  then show ?case by (simp add: burst_def run_def)
next
  case (Cons m ms)
  let ?c = "step (step c (Elapse (fst m))) (Mutation (snd m))"
  from Cons.prems have "fst m < 600" and rest: "list_all (\<lambda>m. fst m < 600) ms" by simp_all
  from next_mutation_rearms [OF Cons.prems(1) this(1), of "snd m"]
  have a: "armed ?c" and s: "state ?c = snd m (state c)" and p: "pushes ?c = pushes c"
    by simp_all
  have "run c (burst (m # ms)) = run ?c (burst ms)"
    by (simp add: burst_Cons run_Cons)
  with Cons.IH [OF a rest] s p show ?case by simp
qed

text \<open>
  From a loaded component with no timer pending, a burst of mutations of which each but
  the first comes less than 600 ms after the one before, followed by 600 ms or more of
  quiet, adds exactly one push: the state after the last mutation.
\<close>

lemma burst_pushes_once:
  assumes "loaded c" "\<not> initialLoad c" "timers c = []"
    and "list_all (\<lambda>m. fst m < 600) ms" and "600 \<le> quiet"
  shows "pushes (run c (burst (m # ms) @ [Elapse quiet])) =
       pushes c @ [foldl (\<lambda>s m. snd m s) (state c) (m # ms)]
     \<and> timers (run c (burst (m # ms) @ [Elapse quiet])) = []"
proof -
  let ?c1 = "step (step c (Elapse (fst m))) (Mutation (snd m))"
  from first_mutation_arms [OF assms(1-3), of "fst m" "snd m"]
  have a1: "armed ?c1" and s1: "state ?c1 = snd m (state c)" and p1: "pushes ?c1 = pushes c"
    by simp_all
  let ?c2 = "run ?c1 (burst ms)"
  from armed_burst [OF a1 assms(4)]
  have a2: "armed ?c2" and s2: "state ?c2 = foldl (\<lambda>s m. snd m s) (state ?c1) ms"
    and p2: "pushes ?c2 = pushes ?c1" by simp_all
  have r: "run c (burst (m # ms) @ [Elapse quiet]) = step ?c2 (Elapse quiet)"
    by (simp add: run_append burst_Cons run_Cons) (simp add: run_def)
  from quiet_fires [OF a2 assms(5)] r s1 s2 p1 p2 show ?thesis by simp
qed

text \<open>
  C6. After the component has mounted and its load has completed, no push is pending or
  made, however long nothing happens. Then any burst of one or more mutations, each
  less than 600 ms after the one before, followed by 600 ms of quiet or more, makes
  exactly one push, of the state after the last mutation, and leaves no timer pending.
\<close>

theorem debounce_coalesces:
  "pushes (run mount [LoadDone data, Elapse t]) = [] \<and>
   timers (run mount [LoadDone data, Elapse t]) = [] \<and>
   (list_all (\<lambda>m. fst m < 600) ms \<and> 600 \<le> quiet \<longrightarrow>
      pushes (run mount (LoadDone data # burst (m # ms) @ [Elapse quiet])) =
        [foldl (\<lambda>s m. snd m s) (case data of Some d \<Rightarrow> d | None \<Rightarrow> CLIENT_DEFAULT_STATE) (m # ms)] \<and>
      timers (run mount (LoadDone data # burst (m # ms) @ [Elapse quiet])) = [])"
proof -
  let ?c = "step mount (LoadDone data)"
  note l = load_settles [of data]
  from l quiet_without_timer [of ?c t]
  have 1: "pushes (run mount [LoadDone data, Elapse t]) = []"
    "timers (run mount [LoadDone data, Elapse t]) = []"
    by (simp_all add: run_def)
  have 2: "pushes (run mount (LoadDone data # burst (m # ms) @ [Elapse quiet])) =
      [foldl (\<lambda>s m. snd m s) (case data of Some d \<Rightarrow> d | None \<Rightarrow> CLIENT_DEFAULT_STATE) (m # ms)] \<and>
      timers (run mount (LoadDone data # burst (m # ms) @ [Elapse quiet])) = []"
    if "list_all (\<lambda>m. fst m < 600) ms" and "600 \<le> quiet"
  proof -
    from l have "loaded ?c" "\<not> initialLoad ?c" "timers ?c = []" by simp_all
    from burst_pushes_once [OF this that, of m] l show ?thesis
      by (simp add: run_Cons)
  qed
  from 1 2 show ?thesis by blast
qed

theorem debounce_coalesces_witness:
  "list_all (\<lambda>m. fst m < 600)
     [(599 :: nat, setNotes (js ''ab'')), (0, setJournal (js ''2024-02-01'') (js ''slept well''))] \<and>
   pushes (run mount
     (LoadDone None #
      burst [(5000, setNotes (js ''a'')), (599 :: nat, setNotes (js ''ab'')),
             (0, setJournal (js ''2024-02-01'') (js ''slept well''))] @
      [Elapse 600])) =
   [CLIENT_DEFAULT_STATE
      \<lparr>journal := [js ''2024-02-01'' \<mapsto> js ''slept well''], notes' := js ''ab''\<rparr>]"
proof -
  have h: "list_all (\<lambda>m. fst m < 600)
      [(599 :: nat, setNotes (js ''ab'')), (0, setJournal (js ''2024-02-01'') (js ''slept well''))]"
    by simp
  from debounce_coalesces [of None 0
      "[(599 :: nat, setNotes (js ''ab'')), (0, setJournal (js ''2024-02-01'') (js ''slept well''))]"
      600 "(5000, setNotes (js ''a''))"] h
  show ?thesis
    by (simp add: mutation_defs CLIENT_DEFAULT_STATE_def)
qed

end
